theory Spec2Isabelle
  imports Main "HOL-Library.AList" "HOL-Library.Sublist" "HOL-Library.Word"
begin

section \<open>Desired-state model (types/topic_info.go)\<close>

text \<open>
  Go strings are byte sequences, modelled as \<open>string\<close>. \<open>Permission\<close> and
  \<open>DeletionPolicy\<close> are named string types in the source.
\<close>

type_synonym Permission = string
type_synonym DeletionPolicy = string

abbreviation PermissionRead :: Permission where "PermissionRead \<equiv> ''READ''"
abbreviation PermissionWrite :: Permission where "PermissionWrite \<equiv> ''WRITE''"
abbreviation DeletionPolicyRetain :: DeletionPolicy where "DeletionPolicyRetain \<equiv> ''RETAIN''"

record User =
  Username :: string
  Arn :: string
  Permissions :: "Permission list"

text \<open>
  \<open>Config\<close> is \<open>map[string]*string\<close>: a value is a pointer, \<open>None\<close> is the nil
  pointer. The map is an association list with the order in which \<open>range\<close> visits it
  (Go leaves that order unspecified, so statements about it hold for every list).
\<close>

type_synonym config = "(string \<times> string option) list"

record TopicInfo =
  Name :: string
  Partitions :: int
  ReplicationFactor :: int
  ClusterArn :: string
  Config :: config
  Users :: "User list"
  DeletionPolicy :: DeletionPolicy

section \<open>User diff (admin/cmd\_update.go)\<close>

record userDiff =
  AddedUsers :: "User list"
  AddedPermissions :: "(string \<times> Permission list) list"
  DeletedPermissions :: "(string \<times> Permission list) list"
  DeletedUsers :: "User list"

definition newUserDiff :: userDiff where
  "newUserDiff = \<lparr>AddedUsers = [], AddedPermissions = [], DeletedPermissions = [], DeletedUsers = []\<rparr>"

text \<open>The index loops: \<open>index[u.Username] = &v\<close> for every user, a later user winning.\<close>

definition indexUsers :: "User list \<Rightarrow> (string \<rightharpoonup> User)" where
  "indexUsers us = foldl (\<lambda>m u. m(Username u \<mapsto> u)) Map.empty us"

text \<open>
  The labelled loops \<open>aa\<close> and \<open>aaa\<close>: the permissions of \<open>ps\<close>, in order, that equal
  no permission of \<open>qs\<close>.
\<close>

definition permissionsNotIn :: "Permission list \<Rightarrow> Permission list \<Rightarrow> Permission list" where
  "permissionsNotIn ps qs = filter (\<lambda>p. \<not> list_ex (\<lambda>q. p = q) qs) ps"

text \<open>The body of the loop over \<open>old.Users\<close>.\<close>

definition diffOldUser :: "(string \<rightharpoonup> User) \<Rightarrow> userDiff \<Rightarrow> User \<Rightarrow> userDiff" where
  "diffOldUser newIndex diff ou =
     (case newIndex (Username ou) of
        Some n \<Rightarrow>
          (let deletedPermissions = permissionsNotIn (Permissions ou) (Permissions n);
               diff1 = (if length deletedPermissions > 0
                        then diff\<lparr>DeletedPermissions :=
                               AList.update (Username ou) deletedPermissions (DeletedPermissions diff)\<rparr>
                        else diff);
               addedPermissions = permissionsNotIn (Permissions n) (Permissions ou);
               diff2 = (if length addedPermissions > 0
                        then diff1\<lparr>AddedPermissions :=
                               AList.update (Username ou) addedPermissions (AddedPermissions diff1)\<rparr>
                        else diff1)
           in if Arn ou \<noteq> Arn n
              then diff2\<lparr>AddedUsers := AddedUsers diff2 @ [n],
                         DeletedUsers := DeletedUsers diff2 @ [ou]\<rparr>
              else diff2)
      | None \<Rightarrow> diff\<lparr>DeletedUsers := DeletedUsers diff @ [ou]\<rparr>)"

text \<open>The body of the loop over \<open>new.Users\<close>.\<close>

definition diffNewUser :: "(string \<rightharpoonup> User) \<Rightarrow> userDiff \<Rightarrow> User \<Rightarrow> userDiff" where
  "diffNewUser oldIndex diff u =
     (case oldIndex (Username u) of
        Some _ \<Rightarrow> diff
      | None \<Rightarrow> diff\<lparr>AddedUsers := AddedUsers diff @ [u]\<rparr>)"

definition diffUsers :: "string \<Rightarrow> TopicInfo \<Rightarrow> TopicInfo \<Rightarrow> userDiff" where
  "diffUsers topic old new =
     (let oldIndex = indexUsers (Users old);
          newIndex = indexUsers (Users new);
          diff = foldl (diffOldUser newIndex) newUserDiff (Users old)
      in foldl (diffNewUser oldIndex) diff (Users new))"

section \<open>Errors, panics and the collaborators' calls\<close>

text \<open>
  Go errors are values. \<open>errors.WithStack\<close> only attaches a stack trace and \<open>errors.Is\<close>
  looks through it, so a wrapped error is modelled as the error itself. A nil-pointer
  dereference and an index out of range are panics, kept apart from errors.
\<close>

datatype error =
    UnknownTopicOrPartition
  | TopicAlreadyExists
  | BackendError string
  | ErrorsNew string

datatype panic = NilPointerDereference | IndexOutOfRange

datatype fault = Error error | Panic panic

definition WithStack :: "error \<Rightarrow> error" where
  "WithStack err = err"

datatype AlterConfigOp = SetConfig | DeleteConfig | AppendConfig | SubtractConfig

text \<open>\<open>kadm.AlterConfig{Op, Name, Value}\<close>; \<open>Value\<close> is a \<open>*string\<close>.\<close>

datatype AlterConfig = AlterConfig AlterConfigOp string "string option"

text \<open>\<open>kadm.ResourceConfig\<close>: its \<open>Configs\<close> are \<open>kadm.Config{Key, Value}\<close> entries in order.\<close>

record ResourceConfig =
  Configs :: "(string \<times> string option) list"

text \<open>
  \<open>kadm.TopicDetail\<close>: \<open>Partitions\<close> maps a partition number to its detail, of which only
  the replicas matter here; \<open>Numbers\<close> lists the partition numbers and \<open>NumReplicas\<close> is the
  number of replicas of the first partition that \<open>range\<close> meets, 0 when there is none.
\<close>

type_synonym PartitionDetails = "(int \<times> int list) list"

record TopicDetail =
  TopicPartitions :: PartitionDetails
  TopicErr :: "error option"

definition Numbers :: "PartitionDetails \<Rightarrow> int list" where
  "Numbers ds = map fst ds"

definition NumReplicas :: "PartitionDetails \<Rightarrow> int" where
  "NumReplicas ds = (case ds of [] \<Rightarrow> 0 | d # _ \<Rightarrow> int (length (snd d)))"

text \<open>The zero value that a lookup of a missing key in \<open>kadm.TopicDetails\<close> yields.\<close>

definition zeroTopicDetail :: TopicDetail where
  "zeroTopicDetail = \<lparr>TopicPartitions = [], TopicErr = None\<rparr>"

text \<open>
  Every call that leaves the process is recorded, with its arguments, in a trace. The
  arguments are in the order of the interface methods in integrations.go.
\<close>

datatype call =
    DescribeClusterCall string
  | NewKafkaClientCall string
  | ListTopicsCall string
  | DescribeTopicConfigsCall string
  | AlterTopicConfigsCall "AlterConfig list" string
  | CreateTopicCall "32 word" "16 word" config string
  | DeleteTopicsCall string
  | CreateUserCall string string string string User
  | DeleteUserCall User string string string string
  | CreateACLsCall string string string "Permission list"
  | DeleteACLsCall string string string "Permission list"
  | FixedDelayCall

text \<open>
  The collaborators (cluster admin client, MSK client, user manager, client provider) are
  interfaces or external services. Each is an oracle that answers a call from its
  arguments and from the trace of the calls made before it, so that an answer may depend
  on earlier mutations. \<open>describeCluster\<close> answers with the tags of the cluster's info.
  \<open>rangeOrder\<close> is the order in which \<open>range\<close> visits the entries
  of a permission map, which Go leaves unspecified.
\<close>

record backend =
  describeCluster :: "call list \<Rightarrow> string \<Rightarrow> error + (string \<times> string) list"
  newKafkaClient :: "call list \<Rightarrow> string \<Rightarrow> error option"
  listTopics :: "call list \<Rightarrow> string \<Rightarrow> error + (string \<times> TopicDetail) list"
  describeTopicConfigs :: "call list \<Rightarrow> string \<Rightarrow> error + ResourceConfig list"
  alterTopicConfigs :: "call list \<Rightarrow> AlterConfig list \<Rightarrow> string \<Rightarrow> error + (string \<times> error option) list"
  createTopic :: "call list \<Rightarrow> 32 word \<Rightarrow> 16 word \<Rightarrow> config \<Rightarrow> string \<Rightarrow> error option"
  deleteTopics :: "call list \<Rightarrow> string \<Rightarrow> error + (string \<times> error option) list"
  createUser :: "call list \<Rightarrow> string \<Rightarrow> string \<Rightarrow> string \<Rightarrow> string \<Rightarrow> User \<Rightarrow> error option"
  deleteUser :: "call list \<Rightarrow> User \<Rightarrow> string \<Rightarrow> string \<Rightarrow> string \<Rightarrow> string \<Rightarrow> error option"
  createACLs :: "call list \<Rightarrow> string \<Rightarrow> string \<Rightarrow> string \<Rightarrow> Permission list \<Rightarrow> error option"
  deleteACLs :: "call list \<Rightarrow> string \<Rightarrow> string \<Rightarrow> string \<Rightarrow> Permission list \<Rightarrow> error option"
  rangeOrder :: "(string \<times> Permission list) list \<Rightarrow> (string \<times> Permission list) list"

text \<open>
  A loop \<open>for _, x := range xs { err := call(x); if err != nil { return err } }\<close>:
  \<open>answer\<close> is the collaborator's answer given the trace so far, \<open>mk\<close> the recorded call.
  The result is the first error (wrapped) or none, and the extended trace.
\<close>

fun rangeCalls :: "(call list \<Rightarrow> 'a \<Rightarrow> error option) \<Rightarrow> ('a \<Rightarrow> call) \<Rightarrow> 'a list \<Rightarrow> call list
    \<Rightarrow> error option \<times> call list" where
  "rangeCalls answer mk [] tr = (None, tr)"
| "rangeCalls answer mk (x # xs) tr =
     (case answer tr x of
        Some err \<Rightarrow> (Some (WithStack err), tr @ [mk x])
      | None \<Rightarrow> rangeCalls answer mk xs (tr @ [mk x]))"

section \<open>Key resolver (admin/kms\_key\_resolver.go)\<close>

definition TagKmsKey :: string where
  "TagKmsKey = ''TR-KMS-KEY''"

definition Resolve :: "backend \<Rightarrow> TopicInfo \<Rightarrow> call list \<Rightarrow> (error + string) \<times> call list" where
  "Resolve be info tr =
     (if length (Users info) > 0
      then (case describeCluster be tr (ClusterArn info) of
              Inl err \<Rightarrow> (Inl (WithStack err), tr @ [DescribeClusterCall (ClusterArn info)])
            | Inr tags \<Rightarrow>
                (case map_of tags TagKmsKey of
                   None \<Rightarrow>
                     (Inl (WithStack (ErrorsNew (''MSK cluster must have a tag named '' @ TagKmsKey
                        @ '' specifying the ARN of KMS key used for encrypting SASL/SCRAM credentials.''))),
                      tr @ [DescribeClusterCall (ClusterArn info)])
                 | Some kmsKey \<Rightarrow> (Inr kmsKey, tr @ [DescribeClusterCall (ClusterArn info)])))
      else (Inr [], tr))"

section \<open>Config diff (admin/cmd\_update.go)\<close>

text \<open>Reading through a \<open>*string\<close>: the nil pointer panics.\<close>

definition deref :: "string option \<Rightarrow> fault + string" where
  "deref p = (case p of None \<Rightarrow> Inl (Panic NilPointerDereference) | Some s \<Rightarrow> Inr s)"

text \<open>\<open>current[e.Key] = e.Value\<close> for every entry of \<open>c[0].Configs\<close>.\<close>

definition currentConfig :: "(string \<times> string option) list \<Rightarrow> (string \<rightharpoonup> string option)" where
  "currentConfig es = foldl (\<lambda>m e. m(fst e \<mapsto> snd e)) Map.empty es"

text \<open>The loop over \<open>new\<close>: \<open>*nv != *cv\<close> reads \<open>nv\<close> first, then \<open>cv\<close>.\<close>

fun diffNewConfig :: "(string \<rightharpoonup> string option) \<Rightarrow> config \<Rightarrow> AlterConfig list \<Rightarrow> fault + AlterConfig list" where
  "diffNewConfig current [] updates = Inr updates"
| "diffNewConfig current ((k, nv) # new) updates =
     (case current k of
        Some cv \<Rightarrow>
          (case deref nv of
             Inl f \<Rightarrow> Inl f
           | Inr n \<Rightarrow>
               (case deref cv of
                  Inl f \<Rightarrow> Inl f
                | Inr c \<Rightarrow>
                    if n \<noteq> c
                    then diffNewConfig current new (updates @ [AlterConfig SetConfig k nv])
                    else diffNewConfig current new updates))
      | None \<Rightarrow> diffNewConfig current new (updates @ [AlterConfig AppendConfig k nv]))"

text \<open>The loop over \<open>old\<close>; \<open>new\<close> is looked up as a map.\<close>

fun diffOldConfig :: "(string \<rightharpoonup> string option) \<Rightarrow> (string \<rightharpoonup> string option) \<Rightarrow> config
    \<Rightarrow> AlterConfig list \<Rightarrow> fault + AlterConfig list" where
  "diffOldConfig current new [] updates = Inr updates"
| "diffOldConfig current new ((k, ov) # old) updates =
     (case new k of
        Some _ \<Rightarrow> diffOldConfig current new old updates
      | None \<Rightarrow>
          (case current k of
             Some cv \<Rightarrow>
               (case deref ov of
                  Inl f \<Rightarrow> Inl f
                | Inr ov' \<Rightarrow>
                    (case deref cv of
                       Inl f \<Rightarrow> Inl f
                     | Inr c \<Rightarrow>
                         if ov' \<noteq> c
                         then diffOldConfig current new old updates
                         else diffOldConfig current new old (updates @ [AlterConfig DeleteConfig k ov])))
           | None \<Rightarrow> diffOldConfig current new old (updates @ [AlterConfig DeleteConfig k ov])))"

text \<open>The logging loop over \<open>updates\<close> reads \<open>*u.Value\<close> of every update.\<close>

fun logUpdates :: "AlterConfig list \<Rightarrow> fault + unit" where
  "logUpdates [] = Inr ()"
| "logUpdates (AlterConfig op' name v # us) =
     (case deref v of Inl f \<Rightarrow> Inl f | Inr _ \<Rightarrow> logUpdates us)"

definition diffConfig :: "backend \<Rightarrow> string \<Rightarrow> config \<Rightarrow> config \<Rightarrow> call list
    \<Rightarrow> (fault + AlterConfig list) \<times> call list" where
  "diffConfig be topic new old tr =
     (case describeTopicConfigs be tr topic of
        Inl err \<Rightarrow> (Inl (Error (WithStack err)), tr @ [DescribeTopicConfigsCall topic])
      | Inr c \<Rightarrow>
          (case c of
             [] \<Rightarrow> (Inl (Panic IndexOutOfRange), tr @ [DescribeTopicConfigsCall topic])
           | c0 # _ \<Rightarrow>
               (let current = currentConfig (Configs c0) in
                case diffNewConfig current new [] of
                  Inl f \<Rightarrow> (Inl f, tr @ [DescribeTopicConfigsCall topic])
                | Inr updates1 \<Rightarrow>
                    (case diffOldConfig current (map_of new) old updates1 of
                       Inl f \<Rightarrow> (Inl f, tr @ [DescribeTopicConfigsCall topic])
                     | Inr updates \<Rightarrow>
                         (case logUpdates updates of
                            Inl f \<Rightarrow> (Inl f, tr @ [DescribeTopicConfigsCall topic])
                          | Inr _ \<Rightarrow> (Inr updates, tr @ [DescribeTopicConfigsCall topic]))))))"

section \<open>Naming (admin/handler.go, second file)\<close>

subsection \<open>The library functions: SHA-256 and unpadded base32\<close>

text \<open>
  \<open>sha256.Sum256\<close> and \<open>base32.StdEncoding.WithPadding(NoPadding).EncodeToString\<close> belong
  to Go's standard library. They are written out (FIPS 180-4 and RFC 4648) so that the
  names can be computed.
\<close>

unbundle bit_operations_syntax

type_synonym byte = "8 word"

definition bytesOfString :: "string \<Rightarrow> byte list" where
  "bytesOfString s = map (\<lambda>c. word_of_nat (of_char c)) s"

definition sha256_K :: "32 word list" where
  "sha256_K = [
      0x428A2F98, 0x71374491, 0xB5C0FBCF, 0xE9B5DBA5,
      0x3956C25B, 0x59F111F1, 0x923F82A4, 0xAB1C5ED5,
      0xD807AA98, 0x12835B01, 0x243185BE, 0x550C7DC3,
      0x72BE5D74, 0x80DEB1FE, 0x9BDC06A7, 0xC19BF174,
      0xE49B69C1, 0xEFBE4786, 0x0FC19DC6, 0x240CA1CC,
      0x2DE92C6F, 0x4A7484AA, 0x5CB0A9DC, 0x76F988DA,
      0x983E5152, 0xA831C66D, 0xB00327C8, 0xBF597FC7,
      0xC6E00BF3, 0xD5A79147, 0x06CA6351, 0x14292967,
      0x27B70A85, 0x2E1B2138, 0x4D2C6DFC, 0x53380D13,
      0x650A7354, 0x766A0ABB, 0x81C2C92E, 0x92722C85,
      0xA2BFE8A1, 0xA81A664B, 0xC24B8B70, 0xC76C51A3,
      0xD192E819, 0xD6990624, 0xF40E3585, 0x106AA070,
      0x19A4C116, 0x1E376C08, 0x2748774C, 0x34B0BCB5,
      0x391C0CB3, 0x4ED8AA4A, 0x5B9CCA4F, 0x682E6FF3,
      0x748F82EE, 0x78A5636F, 0x84C87814, 0x8CC70208,
      0x90BEFFFA, 0xA4506CEB, 0xBEF9A3F7, 0xC67178F2]"

definition sha256_init :: "32 word list" where
  "sha256_init = [
      0x6A09E667, 0xBB67AE85, 0x3C6EF372, 0xA54FF53A,
      0x510E527F, 0x9B05688C, 0x1F83D9AB, 0x5BE0CD19]"

definition sha256_pad :: "byte list \<Rightarrow> byte list" where
  "sha256_pad m =
     m @ [0x80] @ replicate ((64 - (length m + 9) mod 64) mod 64) 0
       @ map (\<lambda>i. ucast (drop_bit (8 * (7 - i)) (word_of_nat (8 * length m) :: 64 word))) [0..<8]"

definition wordOfBytes :: "byte list \<Rightarrow> 32 word" where
  "wordOfBytes bs = foldl (\<lambda>w b. push_bit 8 w OR ucast b) 0 bs"

definition bytesOfWord :: "32 word \<Rightarrow> byte list" where
  "bytesOfWord w = [ucast (drop_bit 24 w), ucast (drop_bit 16 w), ucast (drop_bit 8 w), ucast w]"

definition sigma0 :: "32 word \<Rightarrow> 32 word" where
  "sigma0 x = word_rotr 7 x XOR word_rotr 18 x XOR drop_bit 3 x"

definition sigma1 :: "32 word \<Rightarrow> 32 word" where
  "sigma1 x = word_rotr 17 x XOR word_rotr 19 x XOR drop_bit 10 x"

fun extendSchedule :: "nat \<Rightarrow> 32 word list \<Rightarrow> 32 word list" where
  "extendSchedule 0 w = w"
| "extendSchedule (Suc n) w =
     (let i = length w
      in extendSchedule n
           (w @ [sigma1 (w ! (i - 2)) + w ! (i - 7) + sigma0 (w ! (i - 15)) + w ! (i - 16)]))"

definition schedule :: "byte list \<Rightarrow> 32 word list" where
  "schedule block = extendSchedule 48 (map (\<lambda>i. wordOfBytes (take 4 (drop (4 * i) block))) [0..<16])"

type_synonym sha256_state =
  "32 word \<times> 32 word \<times> 32 word \<times> 32 word \<times> 32 word \<times> 32 word \<times> 32 word \<times> 32 word"

fun sha256_round :: "sha256_state \<Rightarrow> 32 word \<times> 32 word \<Rightarrow> sha256_state" where
  "sha256_round (a, b, c, d, e, f, g, h) (k, w) =
     (let S1 = word_rotr 6 e XOR word_rotr 11 e XOR word_rotr 25 e;
          ch = (e AND f) XOR (NOT e AND g);
          t1 = h + S1 + ch + k + w;
          S0 = word_rotr 2 a XOR word_rotr 13 a XOR word_rotr 22 a;
          maj = (a AND b) XOR (a AND c) XOR (b AND c);
          t2 = S0 + maj
      in (t1 + t2, a, b, c, d + t1, e, f, g))"

fun sha256_add :: "sha256_state \<Rightarrow> sha256_state \<Rightarrow> sha256_state" where
  "sha256_add (a, b, c, d, e, f, g, h) (a', b', c', d', e', f', g', h') =
     (a + a', b + b', c + c', d + d', e + e', f + f', g + g', h + h')"

definition sha256_block :: "sha256_state \<Rightarrow> byte list \<Rightarrow> sha256_state" where
  "sha256_block st block = sha256_add st (foldl sha256_round st (zip sha256_K (schedule block)))"

fun sha256_output :: "sha256_state \<Rightarrow> byte list" where
  "sha256_output (a, b, c, d, e, f, g, h) = concat (map bytesOfWord [a, b, c, d, e, f, g, h])"

definition Sum256 :: "byte list \<Rightarrow> byte list" where
  "Sum256 m =
     (let p = sha256_pad m;
          blocks = map (\<lambda>i. take 64 (drop (64 * i) p)) [0..<length p div 64];
          st0 = (sha256_init ! 0, sha256_init ! 1, sha256_init ! 2, sha256_init ! 3,
                 sha256_init ! 4, sha256_init ! 5, sha256_init ! 6, sha256_init ! 7)
      in sha256_output (foldl sha256_block st0 blocks))"

definition encodeStd :: string where
  "encodeStd = ''ABCDEFGHIJKLMNOPQRSTUVWXYZ234567''"

definition bitsOfByte :: "byte \<Rightarrow> bool list" where
  "bitsOfByte b = map (\<lambda>i. bit b (7 - i)) [0..<8]"

definition natOfBits :: "bool list \<Rightarrow> nat" where
  "natOfBits bs = foldl (\<lambda>n b. 2 * n + (if b then 1 else 0)) 0 bs"

text \<open>
  Unpadded base32: the bits of the input, most significant first, in groups of five, the
  last group filled with zero bits; each group indexes the alphabet.
\<close>

definition base32_EncodeToString :: "byte list \<Rightarrow> string" where
  "base32_EncodeToString src =
     (let bits = concat (map bitsOfByte src)
      in map (\<lambda>i. encodeStd ! natOfBits (take 5 (drop (5 * i) bits @ replicate 4 False)))
           [0..<(length bits + 4) div 5])"

subsection \<open>The repository's naming functions\<close>

text \<open>\<open>id[0:8]\<close> is \<open>take 8\<close>; lemma \<open>shortStackID_length\<close> shows that the slice is in range.\<close>

definition shortStackID :: "string \<Rightarrow> string" where
  "shortStackID stackID =
     (let h = Sum256 (bytesOfString stackID);
          id' = base32_EncodeToString h
      in take 8 id')"

definition canonicalTopicName :: "string \<Rightarrow> string \<Rightarrow> string" where
  "canonicalTopicName name shortStackID' = name @ ''-'' @ shortStackID'"

definition canonicalUsername :: "string \<Rightarrow> string \<Rightarrow> string" where
  "canonicalUsername username shortStackID' = ''AmazonMSK_'' @ username @ ''_'' @ shortStackID'"

section \<open>Update command (admin/cmd\_update.go)\<close>

text \<open>
  \<open>responses.On(topicName, nil)\<close>: the first response of that name, or
  \<open>kerr.UnknownTopicOrPartition\<close> when there is none. A response is its name and its \<open>Err\<close>.
\<close>

definition On :: "(string \<times> error option) list \<Rightarrow> string \<Rightarrow> error + error option" where
  "On responses name =
     (case map_of responses name of None \<Rightarrow> Inl UnknownTopicOrPartition | Some r \<Rightarrow> Inr r)"

text \<open>Lines 64 to 77 of \<open>Run\<close>: the config alterations are sent when there are any.\<close>

definition alterConfigs :: "backend \<Rightarrow> string \<Rightarrow> AlterConfig list \<Rightarrow> call list
    \<Rightarrow> error option \<times> call list" where
  "alterConfigs be topicName cdiff tr =
     (if length cdiff > 0
      then (case alterTopicConfigs be tr cdiff topicName of
              Inl err \<Rightarrow> (Some (WithStack err), tr @ [AlterTopicConfigsCall cdiff topicName])
            | Inr responses \<Rightarrow>
                (case On responses topicName of
                   Inl err \<Rightarrow> (Some (WithStack err), tr @ [AlterTopicConfigsCall cdiff topicName])
                 | Inr responseErr \<Rightarrow>
                     (case responseErr of
                        Some err \<Rightarrow> (Some (WithStack err), tr @ [AlterTopicConfigsCall cdiff topicName])
                      | None \<Rightarrow> (None, tr @ [AlterTopicConfigsCall cdiff topicName]))))
      else (None, tr))"

text \<open>
  Lines 84 to 119 of \<open>Run\<close>: the four loops over the user diff and the delay between the
  first two.
\<close>

definition applyUserDiff :: "backend \<Rightarrow> userDiff \<Rightarrow> string \<Rightarrow> string \<Rightarrow> string \<Rightarrow> string
    \<Rightarrow> call list \<Rightarrow> error option \<times> call list" where
  "applyUserDiff be udiff kmsKeyID topicName shortStackID' clusterArn tr =
     (case rangeCalls (\<lambda>t u. deleteUser be t u kmsKeyID topicName shortStackID' clusterArn)
             (\<lambda>u. DeleteUserCall u kmsKeyID topicName shortStackID' clusterArn)
             (DeletedUsers udiff) tr of
        (Some err, tr1) \<Rightarrow> (Some err, tr1)
      | (None, tr1) \<Rightarrow>
          (let tr2 = (if length (DeletedUsers udiff) > 0 then tr1 @ [FixedDelayCall] else tr1)
           in case rangeCalls (\<lambda>t u. createUser be t shortStackID' topicName kmsKeyID clusterArn u)
                     (\<lambda>u. CreateUserCall shortStackID' topicName kmsKeyID clusterArn u)
                     (AddedUsers udiff) tr2 of
                (Some err, tr3) \<Rightarrow> (Some err, tr3)
              | (None, tr3) \<Rightarrow>
                  (case rangeCalls (\<lambda>t ua. createACLs be t topicName (fst ua) shortStackID' (snd ua))
                          (\<lambda>ua. CreateACLsCall topicName (fst ua) shortStackID' (snd ua))
                          (rangeOrder be (AddedPermissions udiff)) tr3 of
                     (Some err, tr4) \<Rightarrow> (Some err, tr4)
                   | (None, tr4) \<Rightarrow>
                       rangeCalls (\<lambda>t ud. deleteACLs be t topicName (fst ud) shortStackID' (snd ud))
                         (\<lambda>ud. DeleteACLsCall topicName (fst ud) shortStackID' (snd ud))
                         (rangeOrder be (DeletedPermissions udiff)) tr4)))"

definition cmdUpdate_Run :: "backend \<Rightarrow> TopicInfo \<Rightarrow> TopicInfo \<Rightarrow> string \<Rightarrow> call list
    \<Rightarrow> fault option \<times> call list" where
  "cmdUpdate_Run be old new stackID tr =
     (let shortStackID' = shortStackID stackID;
          topicName = canonicalTopicName (Name new) shortStackID';
          tr1 = tr @ [ListTopicsCall topicName]
      in case listTopics be tr topicName of
           Inl err \<Rightarrow> (Some (Error (WithStack err)), tr1)
         | Inr topics \<Rightarrow>
             (case (case map_of topics topicName of None \<Rightarrow> None | Some ct \<Rightarrow> TopicErr ct) of
                Some terr \<Rightarrow>
                  if terr = UnknownTopicOrPartition \<and> Name old \<noteq> Name new
                  then (Some (Error (ErrorsNew ''cannot update Name and ClusterArn properties'')), tr1)
                  else (Some (Error (WithStack terr)), tr1)
              | None \<Rightarrow>
                  (let currentTopic =
                         (case map_of topics topicName of None \<Rightarrow> zeroTopicDetail | Some ct \<Rightarrow> ct)
                   in if int (length (Numbers (TopicPartitions currentTopic))) \<noteq> Partitions new
                      then (Some (Error (ErrorsNew ''Cannot update Partitions'')), tr1)
                      else if NumReplicas (TopicPartitions currentTopic) \<noteq> ReplicationFactor new
                      then (Some (Error (ErrorsNew ''Cannot update ReplicationFactor'')), tr1)
                      else
                        (case Resolve be new tr1 of
                           (Inl err, tr2) \<Rightarrow> (Some (Error (WithStack err)), tr2)
                         | (Inr kmsKeyID, tr2) \<Rightarrow>
                             (case diffConfig be topicName (Config new) (Config old) tr2 of
                                (Inl f, tr3) \<Rightarrow> (Some f, tr3)
                              | (Inr cdiff, tr3) \<Rightarrow>
                                  (case alterConfigs be topicName cdiff tr3 of
                                     (Some err, tr4) \<Rightarrow> (Some (Error err), tr4)
                                   | (None, tr4) \<Rightarrow>
                                       (case applyUserDiff be (diffUsers (Name old) old new) kmsKeyID
                                               topicName shortStackID' (ClusterArn old) tr4 of
                                          (r, tr5) \<Rightarrow> (map_option Error r, tr5))))))))"

section \<open>Delete command (admin/cmd\_delete.go)\<close>


section \<open>Create command (admin/integrations.go, second file)\<close>

record createTopicResult =
  PhysicalResourceID :: string
  UsernameSuffix :: string

text \<open>\<open>int32(info.Partitions)\<close> and \<open>int16(info.ReplicationFactor)\<close> truncate.\<close>

definition cmdCreate_Run :: "backend \<Rightarrow> TopicInfo \<Rightarrow> string \<Rightarrow> call list
    \<Rightarrow> (error + createTopicResult) \<times> call list" where
  "cmdCreate_Run be info stackID tr =
     (case Resolve be info tr of
        (Inl err, tr1) \<Rightarrow> (Inl (WithStack err), tr1)
      | (Inr kmsKeyID, tr1) \<Rightarrow>
          (let shortStackID' = shortStackID stackID;
               topicName = canonicalTopicName (Name info) shortStackID';
               partitions = (word_of_int (Partitions info) :: 32 word);
               replicationFactor = (word_of_int (ReplicationFactor info) :: 16 word);
               tr2 = tr1 @ [CreateTopicCall partitions replicationFactor (Config info) topicName]
           in case (case createTopic be tr1 partitions replicationFactor (Config info) topicName of
                      Some err \<Rightarrow> if err \<noteq> TopicAlreadyExists then Some (WithStack err) else None
                    | None \<Rightarrow> None) of
                Some err \<Rightarrow> (Inl err, tr2)
              | None \<Rightarrow>
                  (case rangeCalls (\<lambda>t u. createUser be t shortStackID' topicName kmsKeyID (ClusterArn info) u)
                          (\<lambda>u. CreateUserCall shortStackID' topicName kmsKeyID (ClusterArn info) u)
                          (Users info) tr2 of
                     (Some err, tr3) \<Rightarrow> (Inl err, tr3)
                   | (None, tr3) \<Rightarrow>
                       (Inr \<lparr>PhysicalResourceID = topicName, UsernameSuffix = shortStackID'\<rparr>, tr3))))"

section \<open>Parsing the property map (types/topic\_info.go)\<close>

text \<open>The untyped property map \<open>map[string]interface{}\<close> of the event, as JSON values.\<close>

datatype json = JNull | JBool bool | JNumber int | JString string
  | JArray "json list" | JObject "(string \<times> json) list"

type_synonym props = "(string \<times> json) list"

text \<open>
  \<open>json.Marshal\<close>, \<open>gojsonschema.Validate\<close> against \<open>topicInfoSchema\<close> and
  \<open>json.Unmarshal\<close> are library functions outside the repository, taken as parameters.
  The validator answers with an error or with \<open>result.Errors()\<close>, each rendered by
  \<open>String()\<close>; \<open>result.Valid()\<close> holds when there is no such error.
\<close>

record jsonLibrary =
  json_Marshal :: "props \<Rightarrow> error + string"
  gojsonschema_Validate :: "string \<Rightarrow> error + string list"
  json_Unmarshal :: "string \<Rightarrow> TopicInfo \<Rightarrow> TopicInfo \<times> error option"

fun strings_Join :: "string list \<Rightarrow> string \<Rightarrow> string" where
  "strings_Join [] sep = []"
| "strings_Join [x] sep = x"
| "strings_Join (x # y # ys) sep = x @ sep @ strings_Join (y # ys) sep"

text \<open>The literal \<open>TopicInfo{DeletionPolicy: DeletionPolicyRetain}\<close>.\<close>

definition initialTopicInfo :: TopicInfo where
  "initialTopicInfo = \<lparr>Name = [], Partitions = 0, ReplicationFactor = 0, ClusterArn = [],
     Config = [], Users = [], DeletionPolicy = DeletionPolicyRetain\<rparr>"

text \<open>The result is the pair \<open>(*TopicInfo, error)\<close>; \<open>None\<close> is nil in both places.\<close>

definition NewTopicInfo :: "jsonLibrary \<Rightarrow> props \<Rightarrow> TopicInfo option \<times> error option" where
  "NewTopicInfo lib props =
     (case json_Marshal lib props of
        Inl err \<Rightarrow> (None, Some err)
      | Inr buf \<Rightarrow>
          (case gojsonschema_Validate lib buf of
             Inl err \<Rightarrow> (None, Some err)
           | Inr resultErrors \<Rightarrow>
               if resultErrors = []
               then (case json_Unmarshal lib buf initialTopicInfo of (ti, err) \<Rightarrow> (Some ti, err))
               else (None, Some (ErrorsNew (strings_Join resultErrors '' '')))))"



section \<open>Create handler (admin/handler.go)\<close>

definition PropUsernameSuffix :: string where
  "PropUsernameSuffix = ''UsernameSuffix''"

text \<open>Of \<open>cfn.Event\<close>, \<open>create\<close> reads the stack identifier and the resource properties.\<close>

record Event =
  StackID :: string
  ResourceProperties :: props

text \<open>
  \<open>rid\<close> is the value of \<open>uuid.NewString()\<close>. The response is the triple of the handler:
  the physical resource identifier, the output properties (\<open>None\<close> is the nil map) and
  the error. \<open>ti.ClusterArn\<close> on a nil \<open>ti\<close> would panic.
\<close>

definition create :: "jsonLibrary \<Rightarrow> backend \<Rightarrow> string \<Rightarrow> Event \<Rightarrow> call list
    \<Rightarrow> (string \<times> (string \<times> string) list option \<times> fault option) \<times> call list" where
  "create lib be rid event tr =
     (case NewTopicInfo lib (ResourceProperties event) of
        (_, Some err) \<Rightarrow> ((rid, None, Some (Error err)), tr)
      | (None, None) \<Rightarrow> ((rid, None, Some (Panic NilPointerDereference)), tr)
      | (Some ti, None) \<Rightarrow>
          (case newKafkaClient be tr (ClusterArn ti) of
             Some err \<Rightarrow> ((rid, None, Some (Error err)), tr @ [NewKafkaClientCall (ClusterArn ti)])
           | None \<Rightarrow>
               (case cmdCreate_Run be ti (StackID event) (tr @ [NewKafkaClientCall (ClusterArn ti)]) of
                  (Inl err, tr') \<Rightarrow> ((rid, Some [], Some (Error err)), tr')
                | (Inr id', tr') \<Rightarrow>
                    ((PhysicalResourceID id', Some [(PropUsernameSuffix, UsernameSuffix id')], None), tr'))))"

section \<open>Fixtures of the tests (admin/cmd\_update\_test.go)\<close>


definition bob :: User where
  "bob = \<lparr>Username = ''bob'', Arn = ''2'', Permissions = [PermissionRead]\<rparr>"

definition bobW :: User where
  "bobW = \<lparr>Username = ''bob'', Arn = ''2'', Permissions = [PermissionWrite]\<rparr>"

definition bobArn3 :: User where
  "bobArn3 = \<lparr>Username = ''bob'', Arn = ''3'', Permissions = [PermissionRead]\<rparr>"

text \<open>\<open>tt.TopicInfo{Name: "a", Users: users, Config: config}\<close>, every other field zero.\<close>

definition testTopicInfo :: "User list \<Rightarrow> config \<Rightarrow> TopicInfo" where
  "testTopicInfo users cfg = \<lparr>Name = ''a'', Partitions = 0, ReplicationFactor = 0, ClusterArn = [],
     Config = cfg, Users = users, DeletionPolicy = []\<rparr>"

text \<open>
  The default \<open>listTopicsOutput\<close> of the test: the topic with \<open>new.Partitions\<close> partitions
  of \<open>new.ReplicationFactor\<close> replicas each.
\<close>

definition mockListTopicsOutput :: "string \<Rightarrow> TopicInfo \<Rightarrow> (string \<times> TopicDetail) list" where
  "mockListTopicsOutput topicName new =
     [(topicName,
       \<lparr>TopicPartitions = map (\<lambda>p. (int p, replicate (nat (ReplicationFactor new)) 0))
                             [0..<nat (Partitions new)],
        TopicErr = None\<rparr>)]"

text \<open>
  A backend in the manner of the test's mocks: the cluster reports the topic as \<open>new\<close>
  describes it and the given configs, carries the key tag, and every call succeeds.
\<close>

definition mockBackend :: "TopicInfo \<Rightarrow> ResourceConfig list \<Rightarrow> backend" where
  "mockBackend new describeTopicConfigsOutput =
     \<lparr>describeCluster = (\<lambda>tr arn. Inr [(TagKmsKey, ''test-kms-key-arn'')]),
      newKafkaClient = (\<lambda>tr arn. None),
      listTopics = (\<lambda>tr topicName. Inr (mockListTopicsOutput topicName new)),
      describeTopicConfigs = (\<lambda>tr topic. Inr describeTopicConfigsOutput),
      alterTopicConfigs = (\<lambda>tr configs topic. Inr [(topic, None)]),
      createTopic = (\<lambda>tr partitions replicationFactor configs topic. None),
      deleteTopics = (\<lambda>tr topic. Inr [(topic, None)]),
      createUser = (\<lambda>tr shortStackID' topic kmsKeyID clusterArn u. None),
      deleteUser = (\<lambda>tr u kmsKeyID topic shortStackID' clusterArn. None),
      createACLs = (\<lambda>tr topic username shortStackID' permissions. None),
      deleteACLs = (\<lambda>tr topic username shortStackID' permissions. None),
      rangeOrder = (\<lambda>m. m)\<rparr>"

text \<open>A library in which marshalling is the identity on a rendering and validation is given.\<close>

definition mockLibrary :: "string list \<Rightarrow> TopicInfo \<Rightarrow> jsonLibrary" where
  "mockLibrary violations ti =
     \<lparr>json_Marshal = (\<lambda>props. Inr (concat (map fst props))),
      gojsonschema_Validate = (\<lambda>buf. Inr violations),
      json_Unmarshal = (\<lambda>buf ti0. (ti, None))\<rparr>"

section \<open>The update's ordered user calls, as the specification words them\<close>

text \<open>
  All deletions of \<open>DeletedUsers\<close>, then one delay if a user was deleted, then the
  creations of \<open>AddedUsers\<close>, then the grants of \<open>AddedPermissions\<close>, then the revokes of
  \<open>DeletedPermissions\<close>.
\<close>

definition orderedUserCalls :: "backend \<Rightarrow> userDiff \<Rightarrow> string \<Rightarrow> string \<Rightarrow> string \<Rightarrow> string \<Rightarrow> call list" where
  "orderedUserCalls be udiff kmsKeyID topicName shortStackID' clusterArn =
     map (\<lambda>u. DeleteUserCall u kmsKeyID topicName shortStackID' clusterArn) (DeletedUsers udiff)
     @ (if DeletedUsers udiff = [] then [] else [FixedDelayCall])
     @ map (\<lambda>u. CreateUserCall shortStackID' topicName kmsKeyID clusterArn u) (AddedUsers udiff)
     @ map (\<lambda>ua. CreateACLsCall topicName (fst ua) shortStackID' (snd ua))
         (rangeOrder be (AddedPermissions udiff))
     @ map (\<lambda>ud. DeleteACLsCall topicName (fst ud) shortStackID' (snd ud))
         (rangeOrder be (DeletedPermissions udiff))"

text \<open>
  The config diff in closed form: per entry of \<open>new\<close> an append when the cluster lacks the
  key and a set when the cluster holds another value; per entry of \<open>old\<close> whose key \<open>new\<close>
  lacks a delete, unless the cluster holds the key with a value other than the old one.
\<close>

definition newConfigOps :: "(string \<rightharpoonup> string option) \<Rightarrow> config \<Rightarrow> AlterConfig list" where
  "newConfigOps current new =
     concat (map (\<lambda>(k, nv). case current k of
                                None \<Rightarrow> [AlterConfig AppendConfig k nv]
                              | Some cv \<Rightarrow> if nv \<noteq> cv then [AlterConfig SetConfig k nv] else []) new)"

definition oldConfigOps :: "(string \<rightharpoonup> string option) \<Rightarrow> (string \<rightharpoonup> string option) \<Rightarrow> config
    \<Rightarrow> AlterConfig list" where
  "oldConfigOps current new old =
     concat (map (\<lambda>(k, ov). if new k = None \<and> (current k = None \<or> current k = Some ov)
                              then [AlterConfig DeleteConfig k ov] else []) old)"


section \<open>Properties\<close>

subsection \<open>User diff\<close>

lemma foldl_index_aux:
  "foldl (\<lambda>m u. m(Username u \<mapsto> u)) m0 us = m0 ++ map_of (rev (map (\<lambda>u. (Username u, u)) us))"
  by (induction us arbitrary: m0) (simp_all add: map_add_upd_left)

lemma indexUsers_map_of: "indexUsers us = map_of (rev (map (\<lambda>u. (Username u, u)) us))"
  by (simp add: indexUsers_def foldl_index_aux)

lemma indexUsers_None: "indexUsers us k = None \<longleftrightarrow> k \<notin> Username ` set us"
  by (simp add: indexUsers_map_of map_of_eq_None_iff image_image)

lemma indexUsers_distinct:
  "distinct (map Username us) \<Longrightarrow> u \<in> set us \<Longrightarrow> indexUsers us (Username u) = Some u"
proof -
  assume d: "distinct (map Username us)" and u: "u \<in> set us"
  have "distinct (map fst (rev (map (\<lambda>u. (Username u, u)) us)))"
    using d by (simp add: rev_map [symmetric] comp_def)
  moreover have "(Username u, u) \<in> set (rev (map (\<lambda>u. (Username u, u)) us))"
    using u by auto
  ultimately show ?thesis
    unfolding indexUsers_map_of by (rule map_of_is_SomeI)
qed

lemma diffNewUser_fold:
  "foldl (diffNewUser oi) d us =
     d\<lparr>AddedUsers := AddedUsers d @ filter (\<lambda>u. oi (Username u) = None) us\<rparr>"
  by (induction us arbitrary: d) (auto simp: diffNewUser_def split: option.splits)

lemma diffOldUser_DeletedUsers:
  "DeletedUsers (foldl (diffOldUser ni) d us) =
     DeletedUsers d @ filter (\<lambda>ou. ni (Username ou) = None \<or> (\<exists>n. ni (Username ou) = Some n \<and> Arn ou \<noteq> Arn n)) us"
  by (induction us arbitrary: d) (auto simp: diffOldUser_def Let_def split: option.splits)

lemma diffOldUser_AddedUsers:
  "AddedUsers (foldl (diffOldUser ni) d us) =
     AddedUsers d @ map (\<lambda>ou. the (ni (Username ou))) (filter (\<lambda>ou. \<exists>n. ni (Username ou) = Some n \<and> Arn ou \<noteq> Arn n) us)"
  by (induction us arbitrary: d) (auto simp: diffOldUser_def Let_def split: option.splits)


lemma diffOldUser_step_AddedPermissions:
  "map_of (AddedPermissions (diffOldUser ni d x)) k =
     (case ni (Username x) of
        None \<Rightarrow> map_of (AddedPermissions d) k
      | Some n \<Rightarrow>
          if k = Username x \<and> permissionsNotIn (Permissions n) (Permissions x) \<noteq> []
          then Some (permissionsNotIn (Permissions n) (Permissions x))
          else map_of (AddedPermissions d) k)"
  by (auto simp: diffOldUser_def Let_def update_conv' split: option.splits)

lemma diffOldUser_step_DeletedPermissions:
  "map_of (DeletedPermissions (diffOldUser ni d x)) k =
     (case ni (Username x) of
        None \<Rightarrow> map_of (DeletedPermissions d) k
      | Some n \<Rightarrow>
          if k = Username x \<and> permissionsNotIn (Permissions x) (Permissions n) \<noteq> []
          then Some (permissionsNotIn (Permissions x) (Permissions n))
          else map_of (DeletedPermissions d) k)"
  by (auto simp: diffOldUser_def Let_def update_conv' split: option.splits)

lemma diffOldUser_AddedPermissions_other:
  "k \<notin> Username ` set us \<Longrightarrow>
   map_of (AddedPermissions (foldl (diffOldUser ni) d us)) k = map_of (AddedPermissions d) k"
  by (induction us arbitrary: d) (auto simp: diffOldUser_step_AddedPermissions split: option.splits)

lemma diffOldUser_DeletedPermissions_other:
  "k \<notin> Username ` set us \<Longrightarrow>
   map_of (DeletedPermissions (foldl (diffOldUser ni) d us)) k = map_of (DeletedPermissions d) k"
  by (induction us arbitrary: d) (auto simp: diffOldUser_step_DeletedPermissions split: option.splits)

lemma diffOldUser_AddedPermissions:
  "distinct (map Username us) \<Longrightarrow> ou \<in> set us \<Longrightarrow> ni (Username ou) = Some n \<Longrightarrow>
   map_of (AddedPermissions (foldl (diffOldUser ni) d us)) (Username ou) =
     (if permissionsNotIn (Permissions n) (Permissions ou) = []
      then map_of (AddedPermissions d) (Username ou)
      else Some (permissionsNotIn (Permissions n) (Permissions ou)))"
proof (induction us arbitrary: d)
  case Nil
  then show ?case by simp
next
  case (Cons x xs)
  show ?case
  proof (cases "x = ou")
    case True
    with Cons.prems have "Username ou \<notin> Username ` set xs" by auto
    then show ?thesis
      using True Cons.prems(3)
      by (simp add: diffOldUser_AddedPermissions_other diffOldUser_step_AddedPermissions)
  next
    case False
    with Cons.prems have mem: "ou \<in> set xs" and ne: "Username x \<noteq> Username ou" by auto
    from Cons.prems have d: "distinct (map Username xs)" by simp
    show ?thesis
      using Cons.IH [OF d mem Cons.prems(3)] ne
      by (auto simp: diffOldUser_step_AddedPermissions split: option.splits)
  qed
qed

lemma diffOldUser_DeletedPermissions:
  "distinct (map Username us) \<Longrightarrow> ou \<in> set us \<Longrightarrow> ni (Username ou) = Some n \<Longrightarrow>
   map_of (DeletedPermissions (foldl (diffOldUser ni) d us)) (Username ou) =
     (if permissionsNotIn (Permissions ou) (Permissions n) = []
      then map_of (DeletedPermissions d) (Username ou)
      else Some (permissionsNotIn (Permissions ou) (Permissions n)))"
proof (induction us arbitrary: d)
  case Nil
  then show ?case by simp
next
  case (Cons x xs)
  show ?case
  proof (cases "x = ou")
    case True
    with Cons.prems have "Username ou \<notin> Username ` set xs" by auto
    then show ?thesis
      using True Cons.prems(3)
      by (simp add: diffOldUser_DeletedPermissions_other diffOldUser_step_DeletedPermissions)
  next
    case False
    with Cons.prems have mem: "ou \<in> set xs" and ne: "Username x \<noteq> Username ou" by auto
    from Cons.prems have d: "distinct (map Username xs)" by simp
    show ?thesis
      using Cons.IH [OF d mem Cons.prems(3)] ne
      by (auto simp: diffOldUser_step_DeletedPermissions split: option.splits)
  qed
qed

lemma permissionsNotIn_Nil_iff: "permissionsNotIn ps qs = [] \<longleftrightarrow> set ps \<subseteq> set qs"
  by (auto simp: permissionsNotIn_def filter_empty_conv list_ex_iff)

lemma diffUsers_fields:
  "AddedUsers (diffUsers topic old new) =
     map (\<lambda>ou. the (indexUsers (Users new) (Username ou))) (filter (\<lambda>ou. \<exists>n. indexUsers (Users new) (Username ou) = Some n \<and> Arn ou \<noteq> Arn n) (Users old))
     @ filter (\<lambda>u. indexUsers (Users old) (Username u) = None) (Users new)"
  "DeletedUsers (diffUsers topic old new) =
     filter (\<lambda>ou. indexUsers (Users new) (Username ou) = None
        \<or> (\<exists>n. indexUsers (Users new) (Username ou) = Some n \<and> Arn ou \<noteq> Arn n)) (Users old)"
  "AddedPermissions (diffUsers topic old new) =
     AddedPermissions (foldl (diffOldUser (indexUsers (Users new))) newUserDiff (Users old))"
  "DeletedPermissions (diffUsers topic old new) =
     DeletedPermissions (foldl (diffOldUser (indexUsers (Users new))) newUserDiff (Users old))"
  by (simp_all add: diffUsers_def Let_def diffNewUser_fold diffOldUser_AddedUsers
      diffOldUser_DeletedUsers newUserDiff_def)

text \<open>
  C1 (as amended). For usernames unique within each user list: when a user of \<open>old\<close> and
  the user of the same name in \<open>new\<close> differ in their \<open>Arn\<close>, \<open>diffUsers\<close> puts the new
  version in \<open>AddedUsers\<close> and the old version in \<open>DeletedUsers\<close>; the permission deltas of
  that user are computed all the same and are not overridden: \<open>AddedPermissions\<close> holds
  the permissions of the new version that the old one lacks, \<open>DeletedPermissions\<close> those of
  the old version that the new one lacks, each entry absent exactly when that list is
  empty. In particular, unchanged permissions leave no permission entry for the user.
\<close>

theorem diffUsers_arn_change:
  assumes "distinct (map Username (Users old))" and "distinct (map Username (Users new))"
    and "ou \<in> set (Users old)" and "n \<in> set (Users new)"
    and "Username n = Username ou" and "Arn ou \<noteq> Arn n"
  shows "n \<in> set (AddedUsers (diffUsers topic old new))
       \<and> ou \<in> set (DeletedUsers (diffUsers topic old new))
       \<and> map_of (AddedPermissions (diffUsers topic old new)) (Username ou) =
           (if permissionsNotIn (Permissions n) (Permissions ou) = [] then None
            else Some (permissionsNotIn (Permissions n) (Permissions ou)))
       \<and> map_of (DeletedPermissions (diffUsers topic old new)) (Username ou) =
           (if permissionsNotIn (Permissions ou) (Permissions n) = [] then None
            else Some (permissionsNotIn (Permissions ou) (Permissions n)))
       \<and> (set (Permissions ou) = set (Permissions n) \<longrightarrow>
            map_of (AddedPermissions (diffUsers topic old new)) (Username ou) = None
          \<and> map_of (DeletedPermissions (diffUsers topic old new)) (Username ou) = None)"
proof -
  have idx: "indexUsers (Users new) (Username ou) = Some n"
    using indexUsers_distinct [OF assms(2) assms(4)] assms(5) by simp
  have a: "n \<in> set (AddedUsers (diffUsers topic old new))"
    using assms(3) assms(6) idx by (force simp: diffUsers_fields(1))
  have b: "ou \<in> set (DeletedUsers (diffUsers topic old new))"
    using assms(3) assms(6) idx by (simp add: diffUsers_fields(2))
  have c: "map_of (AddedPermissions (diffUsers topic old new)) (Username ou) =
           (if permissionsNotIn (Permissions n) (Permissions ou) = [] then None
            else Some (permissionsNotIn (Permissions n) (Permissions ou)))"
    using diffOldUser_AddedPermissions [of "Users old" ou "indexUsers (Users new)" n newUserDiff]
      assms(1) assms(3) idx
    by (simp add: diffUsers_fields(3) newUserDiff_def)
  have d: "map_of (DeletedPermissions (diffUsers topic old new)) (Username ou) =
           (if permissionsNotIn (Permissions ou) (Permissions n) = [] then None
            else Some (permissionsNotIn (Permissions ou) (Permissions n)))"
    using diffOldUser_DeletedPermissions [of "Users old" ou "indexUsers (Users new)" n newUserDiff]
      assms(1) assms(3) idx
    by (simp add: diffUsers_fields(4) newUserDiff_def)
  show ?thesis
    using a b c d by (simp add: permissionsNotIn_Nil_iff)
qed


theorem diffUsers_arn_change_witness:
  "distinct (map Username (Users (testTopicInfo [bob] []))) \<and>
   distinct (map Username (Users (testTopicInfo [bobArn3] []))) \<and>
   bob \<in> set (Users (testTopicInfo [bob] [])) \<and> bobArn3 \<in> set (Users (testTopicInfo [bobArn3] [])) \<and>
   Username bobArn3 = Username bob \<and> Arn bob \<noteq> Arn bobArn3 \<and>
   bobArn3 \<in> set (AddedUsers (diffUsers ''a'' (testTopicInfo [bob] []) (testTopicInfo [bobArn3] []))) \<and>
   bob \<in> set (DeletedUsers (diffUsers ''a'' (testTopicInfo [bob] []) (testTopicInfo [bobArn3] []))) \<and>
   map_of (AddedPermissions (diffUsers ''a'' (testTopicInfo [bob] []) (testTopicInfo [bobArn3] []))) ''bob'' = None \<and>
   map_of (DeletedPermissions (diffUsers ''a'' (testTopicInfo [bob] []) (testTopicInfo [bobArn3] []))) ''bob'' = None"
  using diffUsers_arn_change [of "testTopicInfo [bob] []" "testTopicInfo [bobArn3] []" bob bobArn3 "''a''"]
  by (simp add: testTopicInfo_def bob_def bobArn3_def permissionsNotIn_def)

text \<open>
  C1 as stated fails: with the \<open>Arn\<close> changed from 2 to 3 and the permission changed from
  READ to WRITE, the user is replaced and the permission deltas carry an entry for the
  user nevertheless.
\<close>

theorem diffUsers_arn_change_keeps_permission_deltas:
  "diffUsers ''a'' (testTopicInfo [bob] [])
     (testTopicInfo [\<lparr>Username = ''bob'', Arn = ''3'', Permissions = [PermissionWrite]\<rparr>] [])
   = \<lparr>AddedUsers = [\<lparr>Username = ''bob'', Arn = ''3'', Permissions = [PermissionWrite]\<rparr>],
      AddedPermissions = [(''bob'', [PermissionWrite])],
      DeletedPermissions = [(''bob'', [PermissionRead])],
      DeletedUsers = [bob]\<rparr>"
  by (simp add: diffUsers_def indexUsers_def diffOldUser_def diffNewUser_def permissionsNotIn_def
      newUserDiff_def testTopicInfo_def bob_def Let_def)

subsection \<open>Config diff\<close>

lemma currentConfig_map_of: "currentConfig es = map_of (rev es)"
proof -
  have "foldl (\<lambda>m e. m(fst e \<mapsto> snd e)) m0 es = m0 ++ map_of (rev es)" for m0
    by (induction es arbitrary: m0) (simp_all add: map_add_upd_left)
  then show ?thesis by (simp add: currentConfig_def)
qed

lemma currentConfig_nonnil:
  "\<forall>(k, v) \<in> set es. v \<noteq> None \<Longrightarrow> currentConfig es k \<noteq> Some None"
proof
  assume a: "\<forall>(k, v) \<in> set es. v \<noteq> None" and b: "currentConfig es k = Some None"
  from b have "(k, None) \<in> set (rev es)"
    unfolding currentConfig_map_of by (rule map_of_SomeD)
  with a show False by auto
qed

lemma diffNewConfig_closed:
  "\<forall>(k, v) \<in> set new. v \<noteq> None \<Longrightarrow> \<forall>k. current k \<noteq> Some None \<Longrightarrow>
   diffNewConfig current new updates = Inr (updates @ newConfigOps current new)"
proof (induction new arbitrary: updates)
  case Nil
  then show ?case by (simp add: newConfigOps_def)
next
  case (Cons e new)
  obtain k nv where e: "e = (k, nv)" by (cases e)
  from Cons.prems e obtain n where nv: "nv = Some n" by auto
  from Cons.prems have rest: "\<forall>(k, v) \<in> set new. v \<noteq> None" by simp
  note IH = Cons.IH [OF rest Cons.prems(2)]
  show ?case
  proof (cases "current k")
    case None
    then show ?thesis using e IH by (simp add: newConfigOps_def)
  next
    case (Some cv)
    with Cons.prems(2) obtain c where cv: "cv = Some c" by (cases cv) auto
    show ?thesis using e nv Some cv IH by (simp add: newConfigOps_def deref_def)
  qed
qed

lemma diffOldConfig_closed:
  "\<forall>(k, v) \<in> set old. v \<noteq> None \<Longrightarrow> \<forall>k. current k \<noteq> Some None \<Longrightarrow>
   diffOldConfig current new old updates = Inr (updates @ oldConfigOps current new old)"
proof (induction old arbitrary: updates)
  case Nil
  then show ?case by (simp add: oldConfigOps_def)
next
  case (Cons e old)
  obtain k ov where e: "e = (k, ov)" by (cases e)
  from Cons.prems e obtain v where ov: "ov = Some v" by auto
  from Cons.prems have rest: "\<forall>(k, v) \<in> set old. v \<noteq> None" by simp
  note IH = Cons.IH [OF rest Cons.prems(2)]
  show ?case
  proof (cases "new k")
    case (Some a)
    then show ?thesis using e IH by (simp add: oldConfigOps_def)
  next
    case None
    note newk = None
    show ?thesis
    proof (cases "current k")
      case None
      then show ?thesis using e newk IH by (simp add: oldConfigOps_def)
    next
      case (Some cv)
      with Cons.prems(2) obtain c where cv: "cv = Some c" by (cases cv) auto
      show ?thesis using e ov newk Some cv IH by (auto simp: oldConfigOps_def deref_def)
    qed
  qed
qed

lemma logUpdates_ok:
  "\<forall>u \<in> set us. \<forall>op' k v. u = AlterConfig op' k v \<longrightarrow> v \<noteq> None \<Longrightarrow> logUpdates us = Inr ()"
proof (induction us)
  case Nil
  then show ?case by simp
next
  case (Cons u us)
  obtain op' k v where u: "u = AlterConfig op' k v" by (cases u)
  with Cons.prems obtain s where "v = Some s" by auto
  with Cons u show ?case by (simp add: deref_def)
qed

lemma newConfigOps_simps:
  "newConfigOps current [] = []"
  "newConfigOps current ((k, nv) # new) =
     (case current k of
        None \<Rightarrow> [AlterConfig AppendConfig k nv]
      | Some cv \<Rightarrow> if nv \<noteq> cv then [AlterConfig SetConfig k nv] else [])
     @ newConfigOps current new"
  by (simp_all add: newConfigOps_def)

lemma oldConfigOps_simps:
  "oldConfigOps current new [] = []"
  "oldConfigOps current new ((k, ov) # old) =
     (if new k = None \<and> (current k = None \<or> current k = Some ov)
      then [AlterConfig DeleteConfig k ov] else [])
     @ oldConfigOps current new old"
  by (simp_all add: oldConfigOps_def)

lemma newConfigOps_mem:
  "x \<in> set (newConfigOps current new) \<longleftrightarrow>
     (\<exists>k v. (k, v) \<in> set new \<and>
        (current k = None \<and> x = AlterConfig AppendConfig k v
         \<or> (\<exists>cv. current k = Some cv \<and> cv \<noteq> v \<and> x = AlterConfig SetConfig k v)))"
proof (induction new)
  case Nil
  show ?case by (simp add: newConfigOps_simps)
next
  case (Cons e new)
  obtain k' v' where e: "e = (k', v')" by (cases e)
  show ?case
    unfolding e newConfigOps_simps set_append Un_iff Cons.IH
    by (cases "current k'") auto
qed

lemma oldConfigOps_mem:
  "x \<in> set (oldConfigOps current new old) \<longleftrightarrow>
     (\<exists>k v. (k, v) \<in> set old \<and> new k = None \<and> (current k = None \<or> current k = Some v)
        \<and> x = AlterConfig DeleteConfig k v)"
proof (induction old)
  case Nil
  show ?case by (simp add: oldConfigOps_simps)
next
  case (Cons e old)
  obtain k' v' where e: "e = (k', v')" by (cases e)
  show ?case
    unfolding e oldConfigOps_simps set_append Un_iff Cons.IH
    by auto
qed

lemma diffConfig_closed:
  assumes "describeTopicConfigs be tr topic = Inr (c0 # cs)"
    and "\<forall>(k, v) \<in> set new. v \<noteq> None" and "\<forall>(k, v) \<in> set old. v \<noteq> None"
    and "\<forall>(k, v) \<in> set (Configs c0). v \<noteq> None"
  shows "diffConfig be topic new old tr =
     (Inr (newConfigOps (currentConfig (Configs c0)) new
           @ oldConfigOps (currentConfig (Configs c0)) (map_of new) old),
      tr @ [DescribeTopicConfigsCall topic])"
proof -
  let ?cur = "currentConfig (Configs c0)"
  have cur: "\<forall>k. ?cur k \<noteq> Some None"
    using currentConfig_nonnil [OF assms(4)] by simp
  have n: "diffNewConfig ?cur new [] = Inr (newConfigOps ?cur new)"
    using diffNewConfig_closed [OF assms(2) cur, of "[]"] by simp
  have o: "diffOldConfig ?cur (map_of new) old (newConfigOps ?cur new)
           = Inr (newConfigOps ?cur new @ oldConfigOps ?cur (map_of new) old)"
    by (rule diffOldConfig_closed [OF assms(3) cur])
  have l: "logUpdates (newConfigOps ?cur new @ oldConfigOps ?cur (map_of new) old) = Inr ()"
    by (rule logUpdates_ok) (use assms(2,3) in \<open>auto simp: newConfigOps_mem oldConfigOps_mem\<close>)
  show ?thesis
    by (simp add: diffConfig_def Let_def assms(1) n o l)
qed


text \<open>
  C2 (as amended). When the cluster's description is returned and no config value is nil,
  \<open>diffConfig\<close> returns a diff that holds: an append for every entry of \<open>new\<close> whose key
  the current config lacks; a set for every entry of \<open>new\<close> whose key the current config
  holds with a different value; a delete for every entry of \<open>old\<close> whose key \<open>new\<close> lacks,
  unless the current config holds that key with a value other than the old one (a key
  that the current config lacks is deleted as well); and no other operation. For
  old \<open>{a:1, b:2, c:1}\<close>, new \<open>{a:2, c:1, d:3}\<close> and current \<open>{a:1, b:2, c:1, x:1}\<close> the diff
  is exactly add \<open>{d:3}\<close>, set \<open>{a:2}\<close>, delete \<open>{b:2}\<close>, in whatever order the maps are
  visited.
\<close>

theorem diffConfig_three_way:
  assumes "describeTopicConfigs be tr topic = Inr (c0 # cs)"
    and "\<forall>(k, v) \<in> set new. v \<noteq> None" and "\<forall>(k, v) \<in> set old. v \<noteq> None"
    and "\<forall>(k, v) \<in> set (Configs c0). v \<noteq> None"
  shows "\<exists>ops. diffConfig be topic new old tr = (Inr ops, tr @ [DescribeTopicConfigsCall topic])
     \<and> (\<forall>k v. AlterConfig AppendConfig k v \<in> set ops \<longleftrightarrow>
            (k, v) \<in> set new \<and> currentConfig (Configs c0) k = None)
     \<and> (\<forall>k v. AlterConfig SetConfig k v \<in> set ops \<longleftrightarrow>
            (k, v) \<in> set new \<and> (\<exists>cv. currentConfig (Configs c0) k = Some cv \<and> cv \<noteq> v))
     \<and> (\<forall>k v. AlterConfig DeleteConfig k v \<in> set ops \<longleftrightarrow>
            (k, v) \<in> set old \<and> k \<notin> fst ` set new
            \<and> (currentConfig (Configs c0) k = None \<or> currentConfig (Configs c0) k = Some v))
     \<and> (\<forall>k v. AlterConfig SubtractConfig k v \<notin> set ops)
     \<and> (Configs c0 = [(''a'', Some ''1''), (''b'', Some ''2''), (''c'', Some ''1''), (''x'', Some ''1'')]
          \<and> set new = {(''a'', Some ''2''), (''c'', Some ''1''), (''d'', Some ''3'')}
          \<and> set old = {(''a'', Some ''1''), (''b'', Some ''2''), (''c'', Some ''1'')}
        \<longrightarrow> set ops = {AlterConfig AppendConfig ''d'' (Some ''3''),
                         AlterConfig SetConfig ''a'' (Some ''2''),
                         AlterConfig DeleteConfig ''b'' (Some ''2'')})"
proof -
  let ?cur = "currentConfig (Configs c0)"
  let ?ops = "newConfigOps ?cur new @ oldConfigOps ?cur (map_of new) old"
  have mem: "x \<in> set ?ops \<longleftrightarrow>
      (\<exists>k v. (k, v) \<in> set new \<and>
        (?cur k = None \<and> x = AlterConfig AppendConfig k v
         \<or> (\<exists>cv. ?cur k = Some cv \<and> cv \<noteq> v \<and> x = AlterConfig SetConfig k v)))
      \<or> (\<exists>k v. (k, v) \<in> set old \<and> k \<notin> fst ` set new \<and> (?cur k = None \<or> ?cur k = Some v)
            \<and> x = AlterConfig DeleteConfig k v)" for x
    by (simp add: newConfigOps_mem oldConfigOps_mem map_of_eq_None_iff)
  have run: "diffConfig be topic new old tr = (Inr ?ops, tr @ [DescribeTopicConfigsCall topic])"
    by (rule diffConfig_closed [OF assms])
  have app: "\<forall>k v. AlterConfig AppendConfig k v \<in> set ?ops \<longleftrightarrow> (k, v) \<in> set new \<and> ?cur k = None"
    unfolding mem by auto
  have st: "\<forall>k v. AlterConfig SetConfig k v \<in> set ?ops \<longleftrightarrow>
              (k, v) \<in> set new \<and> (\<exists>cv. ?cur k = Some cv \<and> cv \<noteq> v)"
    unfolding mem by auto
  have del: "\<forall>k v. AlterConfig DeleteConfig k v \<in> set ?ops \<longleftrightarrow>
              (k, v) \<in> set old \<and> k \<notin> fst ` set new \<and> (?cur k = None \<or> ?cur k = Some v)"
    unfolding mem by auto
  have sub: "\<forall>k v. AlterConfig SubtractConfig k v \<notin> set ?ops"
    unfolding mem by auto
  have ex: "set ?ops = {AlterConfig AppendConfig ''d'' (Some ''3''),
                        AlterConfig SetConfig ''a'' (Some ''2''),
                        AlterConfig DeleteConfig ''b'' (Some ''2'')}"
    if c: "Configs c0 = [(''a'', Some ''1''), (''b'', Some ''2''), (''c'', Some ''1''), (''x'', Some ''1'')]"
      and n: "set new = {(''a'', Some ''2''), (''c'', Some ''1''), (''d'', Some ''3'')}"
      and o: "set old = {(''a'', Some ''1''), (''b'', Some ''2''), (''c'', Some ''1'')}"
  proof -
    have ca: "?cur ''a'' = Some (Some ''1'')" and cb: "?cur ''b'' = Some (Some ''2'')"
      and cc: "?cur ''c'' = Some (Some ''1'')" and cd: "?cur ''d'' = None"
      by (simp_all add: c currentConfig_def)
    have keys: "fst ` set new = {''a'', ''c'', ''d''}"
      by (simp add: n)
    have "x \<in> set ?ops \<longleftrightarrow> x \<in> {AlterConfig AppendConfig ''d'' (Some ''3''),
                        AlterConfig SetConfig ''a'' (Some ''2''),
                        AlterConfig DeleteConfig ''b'' (Some ''2'')}" for x
    proof (cases x)
      case (AlterConfig op' k v)
      show ?thesis
      proof (cases op')
        case SetConfig
        have "x \<in> set ?ops \<longleftrightarrow> (k, v) \<in> set new \<and> (\<exists>cv. ?cur k = Some cv \<and> cv \<noteq> v)"
          using st AlterConfig SetConfig by simp
        also have "\<dots> \<longleftrightarrow> k = ''a'' \<and> v = Some ''2''"
          unfolding n using ca cc cd by auto
        finally show ?thesis using AlterConfig SetConfig by simp
      next
        case DeleteConfig
        have "x \<in> set ?ops \<longleftrightarrow>
                (k, v) \<in> set old \<and> k \<notin> fst ` set new \<and> (?cur k = None \<or> ?cur k = Some v)"
          using del AlterConfig DeleteConfig by simp
        also have "\<dots> \<longleftrightarrow> k = ''b'' \<and> v = Some ''2''"
          unfolding keys o using cb by auto
        finally show ?thesis using AlterConfig DeleteConfig by simp
      next
        case AppendConfig
        have "x \<in> set ?ops \<longleftrightarrow> (k, v) \<in> set new \<and> ?cur k = None"
          using app AlterConfig AppendConfig by simp
        also have "\<dots> \<longleftrightarrow> k = ''d'' \<and> v = Some ''3''"
          unfolding n using ca cc cd by auto
        finally show ?thesis using AlterConfig AppendConfig by simp
      next
        case SubtractConfig
        then show ?thesis using sub AlterConfig by simp
      qed
    qed
    then show ?thesis by (rule set_eqI)
  qed
  show ?thesis
    using run app st del sub ex by blast
qed

theorem diffConfig_three_way_witness:
  "describeTopicConfigs
     (mockBackend (testTopicInfo [] [])
        [\<lparr>Configs = [(''a'', Some ''1''), (''b'', Some ''2''), (''c'', Some ''1''), (''x'', Some ''1'')]\<rparr>])
     [] ''t''
   = Inr [\<lparr>Configs = [(''a'', Some ''1''), (''b'', Some ''2''), (''c'', Some ''1''), (''x'', Some ''1'')]\<rparr>]
   \<and> (\<exists>ops. diffConfig
          (mockBackend (testTopicInfo [] [])
             [\<lparr>Configs = [(''a'', Some ''1''), (''b'', Some ''2''), (''c'', Some ''1''), (''x'', Some ''1'')]\<rparr>])
          ''t'' [(''a'', Some ''2''), (''c'', Some ''1''), (''d'', Some ''3'')]
          [(''a'', Some ''1''), (''b'', Some ''2''), (''c'', Some ''1'')] []
        = (Inr ops, [DescribeTopicConfigsCall ''t''])
      \<and> set ops = {AlterConfig AppendConfig ''d'' (Some ''3''),
                    AlterConfig SetConfig ''a'' (Some ''2''),
                    AlterConfig DeleteConfig ''b'' (Some ''2'')})"
proof -
  let ?c0 = "\<lparr>Configs = [(''a'', Some ''1''), (''b'', Some ''2''), (''c'', Some ''1''), (''x'', Some ''1'')]\<rparr>"
  let ?be = "mockBackend (testTopicInfo [] []) [?c0]"
  let ?new = "[(''a'', Some ''2''), (''c'', Some ''1''), (''d'', Some ''3'')]"
  let ?old = "[(''a'', Some ''1''), (''b'', Some ''2''), (''c'', Some ''1'')]"
  have h1: "describeTopicConfigs ?be [] ''t'' = Inr (?c0 # [])"
    by (simp add: mockBackend_def)
  have h2: "\<forall>(k, v) \<in> set ?new. v \<noteq> None" by simp
  have h3: "\<forall>(k, v) \<in> set ?old. v \<noteq> None" by simp
  have h4: "\<forall>(k, v) \<in> set (Configs ?c0). v \<noteq> None" by simp
  from diffConfig_three_way [OF h1 h2 h3 h4]
  obtain ops where r: "diffConfig ?be ''t'' ?new ?old [] = (Inr ops, [] @ [DescribeTopicConfigsCall ''t''])"
    and e: "Configs ?c0 = [(''a'', Some ''1''), (''b'', Some ''2''), (''c'', Some ''1''), (''x'', Some ''1'')]
          \<and> set ?new = {(''a'', Some ''2''), (''c'', Some ''1''), (''d'', Some ''3'')}
          \<and> set ?old = {(''a'', Some ''1''), (''b'', Some ''2''), (''c'', Some ''1'')}
        \<longrightarrow> set ops = {AlterConfig AppendConfig ''d'' (Some ''3''),
                         AlterConfig SetConfig ''a'' (Some ''2''),
                         AlterConfig DeleteConfig ''b'' (Some ''2'')}"
    by (elim exE conjE)
  have s: "set ops = {AlterConfig AppendConfig ''d'' (Some ''3''),
                      AlterConfig SetConfig ''a'' (Some ''2''),
                      AlterConfig DeleteConfig ''b'' (Some ''2'')}"
    by (rule e [rule_format]) simp
  have r': "diffConfig ?be ''t'' ?new ?old [] = (Inr ops, [DescribeTopicConfigsCall ''t''])"
    using r by (simp only: append_Nil)
  have "\<exists>ops. diffConfig ?be ''t'' ?new ?old [] = (Inr ops, [DescribeTopicConfigsCall ''t''])
      \<and> set ops = {AlterConfig AppendConfig ''d'' (Some ''3''),
                    AlterConfig SetConfig ''a'' (Some ''2''),
                    AlterConfig DeleteConfig ''b'' (Some ''2'')}"
    using r' s by (intro exI [of _ ops] conjI)
  moreover have "describeTopicConfigs ?be [] ''t'' = Inr [?c0]"
    by (rule h1)
  ultimately show ?thesis by (intro conjI)
qed

text \<open>
  C2 as stated fails: a key of \<open>old\<close> that \<open>new\<close> lacks is deleted although the current
  cluster config holds no value for it, hence none that matches the old one.
\<close>

theorem diffConfig_deletes_key_absent_from_current:
  "currentConfig (Configs \<lparr>Configs = []\<rparr>) ''b'' = None
   \<and> diffConfig (mockBackend (testTopicInfo [] []) [\<lparr>Configs = []\<rparr>]) ''t'' [] [(''b'', Some ''2'')] []
     = (Inr [AlterConfig DeleteConfig ''b'' (Some ''2'')], [DescribeTopicConfigsCall ''t''])"
  by (simp add: diffConfig_def mockBackend_def currentConfig_def deref_def)

lemma diffNewConfig_Inl: "diffNewConfig current new updates = Inl f \<Longrightarrow> f = Panic NilPointerDereference"
  by (induction current new updates rule: diffNewConfig.induct)
     (auto simp: deref_def split: option.splits if_splits)

lemma diffOldConfig_Inl: "diffOldConfig current new old updates = Inl f \<Longrightarrow> f = Panic NilPointerDereference"
  by (induction current new old updates rule: diffOldConfig.induct)
     (auto simp: deref_def split: option.splits if_splits)

lemma logUpdates_Inl: "logUpdates us = Inl f \<Longrightarrow> f = Panic NilPointerDereference"
  by (induction us rule: logUpdates.induct) (auto simp: deref_def split: option.splits)

lemma logUpdates_nil: "AlterConfig op' k None \<in> set us \<Longrightarrow> logUpdates us = Inl (Panic NilPointerDereference)"
  by (induction us rule: logUpdates.induct) (auto simp: deref_def split: option.splits)

lemma diffNewConfig_keeps: "diffNewConfig current new updates = Inr r \<Longrightarrow> set updates \<subseteq> set r"
  by (induction current new updates arbitrary: r rule: diffNewConfig.induct)
     (auto simp: deref_def split: option.splits if_splits)

lemma diffOldConfig_keeps: "diffOldConfig current new old updates = Inr r \<Longrightarrow> set updates \<subseteq> set r"
  by (induction current new old updates arbitrary: r rule: diffOldConfig.induct)
     (auto simp: deref_def split: option.splits if_splits)

lemma diffNewConfig_nil:
  "diffNewConfig current new updates = Inr r \<Longrightarrow> (k, None) \<in> set new \<Longrightarrow>
   AlterConfig AppendConfig k None \<in> set r"
proof (induction current new updates arbitrary: r rule: diffNewConfig.induct)
  case (1 current updates)
  then show ?case by simp
next
  case (2 current k' nv new updates)
  show ?case
  proof (cases "(k', nv) = (k, None)")
    case True
    with "2.prems"(1) show ?thesis
      by (auto simp: deref_def split: option.splits dest: diffNewConfig_keeps)
  next
    case False
    with "2.prems"(2) have "(k, None) \<in> set new" by auto
    with "2.prems"(1) "2.IH" show ?thesis
      by (auto simp: deref_def split: option.splits if_splits)
  qed
qed

lemma diffOldConfig_nil:
  "diffOldConfig current new old updates = Inr r \<Longrightarrow> (k, None) \<in> set old \<Longrightarrow> new k = None \<Longrightarrow>
   AlterConfig DeleteConfig k None \<in> set r"
proof (induction current new old updates arbitrary: r rule: diffOldConfig.induct)
  case (1 current new updates)
  then show ?case by simp
next
  case (2 current new k' ov old updates)
  show ?case
  proof (cases "(k', ov) = (k, None)")
    case True
    with "2.prems"(1,3) show ?thesis
      by (auto simp: deref_def split: option.splits dest: diffOldConfig_keeps)
  next
    case False
    with "2.prems"(2) have "(k, None) \<in> set old" by auto
    with "2.prems"(1,3) "2.IH" show ?thesis
      by (auto simp: deref_def split: option.splits if_splits)
  qed
qed

lemma diffConfig_panic_cases:
  assumes "describeTopicConfigs be tr topic = Inr (c0 # cs)"
  shows "fst (diffConfig be topic new old tr) = Inl (Panic NilPointerDereference)
       \<or> (\<exists>r1 r. diffNewConfig (currentConfig (Configs c0)) new [] = Inr r1
            \<and> diffOldConfig (currentConfig (Configs c0)) (map_of new) old r1 = Inr r
            \<and> logUpdates r = Inr ())"
  using assms
  by (auto simp: diffConfig_def Let_def split: sum.splits
      dest: diffNewConfig_Inl diffOldConfig_Inl logUpdates_Inl)

text \<open>
  C10. Once the cluster's configs are described, \<open>diffConfig\<close> panics on a nil pointer for
  every \<open>new\<close> config that holds a nil value, and for every \<open>old\<close> config that holds a nil
  value under a key that \<open>new\<close> lacks: the dereferences are unguarded.
\<close>

theorem diffConfig_nil_value_panics:
  assumes "describeTopicConfigs be tr topic = Inr (c0 # cs)"
  shows "((k, None) \<in> set new \<longrightarrow>
            fst (diffConfig be topic new old tr) = Inl (Panic NilPointerDereference))
       \<and> ((k, None) \<in> set old \<and> k \<notin> fst ` set new \<longrightarrow>
            fst (diffConfig be topic new old tr) = Inl (Panic NilPointerDereference))"
proof (intro conjI impI)
  assume mem: "(k, None) \<in> set new"
  show "fst (diffConfig be topic new old tr) = Inl (Panic NilPointerDereference)"
  proof (rule ccontr)
    assume "fst (diffConfig be topic new old tr) \<noteq> Inl (Panic NilPointerDereference)"
    with diffConfig_panic_cases [OF assms, of new old]
    obtain r1 r where a: "diffNewConfig (currentConfig (Configs c0)) new [] = Inr r1"
      and b: "diffOldConfig (currentConfig (Configs c0)) (map_of new) old r1 = Inr r"
      and c: "logUpdates r = Inr ()" by blast
    from diffNewConfig_nil [OF a mem] diffOldConfig_keeps [OF b]
    have "AlterConfig AppendConfig k None \<in> set r" by blast
    from logUpdates_nil [OF this] c show False by simp
  qed
next
  assume "(k, None) \<in> set old \<and> k \<notin> fst ` set new"
  then have mem: "(k, None) \<in> set old" and nk: "map_of new k = None"
    by (simp_all add: map_of_eq_None_iff)
  show "fst (diffConfig be topic new old tr) = Inl (Panic NilPointerDereference)"
  proof (rule ccontr)
    assume "fst (diffConfig be topic new old tr) \<noteq> Inl (Panic NilPointerDereference)"
    with diffConfig_panic_cases [OF assms, of new old]
    obtain r1 r where a: "diffNewConfig (currentConfig (Configs c0)) new [] = Inr r1"
      and b: "diffOldConfig (currentConfig (Configs c0)) (map_of new) old r1 = Inr r"
      and c: "logUpdates r = Inr ()" by blast
    from diffOldConfig_nil [OF b mem nk]
    have "AlterConfig DeleteConfig k None \<in> set r" .
    from logUpdates_nil [OF this] c show False by simp
  qed
qed

theorem diffConfig_nil_value_panics_witness:
  "describeTopicConfigs (mockBackend (testTopicInfo [] []) [\<lparr>Configs = [(''a'', Some ''1'')]\<rparr>]) [] ''t''
     = Inr [\<lparr>Configs = [(''a'', Some ''1'')]\<rparr>]
   \<and> (''a'', None) \<in> set [(''a'', None)]
   \<and> fst (diffConfig (mockBackend (testTopicInfo [] []) [\<lparr>Configs = [(''a'', Some ''1'')]\<rparr>])
            ''t'' [(''a'', None)] [] [])
       = Inl (Panic NilPointerDereference)
   \<and> (''b'', None) \<in> set [(''b'', None)] \<and> ''b'' \<notin> fst ` set ([] :: config)
   \<and> fst (diffConfig (mockBackend (testTopicInfo [] []) [\<lparr>Configs = [(''a'', Some ''1'')]\<rparr>])
            ''t'' [] [(''b'', None)] [])
       = Inl (Panic NilPointerDereference)"
proof -
  have h: "describeTopicConfigs (mockBackend (testTopicInfo [] []) [\<lparr>Configs = [(''a'', Some ''1'')]\<rparr>]) [] ''t''
     = Inr (\<lparr>Configs = [(''a'', Some ''1'')]\<rparr> # [])"
    by (simp add: mockBackend_def)
  show ?thesis
    using diffConfig_nil_value_panics [OF h, of "''a''" "[(''a'', None)]" "[]"]
      diffConfig_nil_value_panics [OF h, of "''b''" "[]" "[(''b'', None)]"] h
    by simp
qed

subsection \<open>Update command\<close>






lemma rangeCalls_all_None:
  "\<forall>t x. answer t x = None \<Longrightarrow> rangeCalls answer mk xs tr = (None, tr @ map mk xs)"
  by (induction xs arbitrary: tr) auto









lemmas mock_eval =
  cmdUpdate_Run_def Let_def mockBackend_def mockListTopicsOutput_def testTopicInfo_def
  Resolve_def TagKmsKey_def diffConfig_def currentConfig_def alterConfigs_def applyUserDiff_def
  diffUsers_def indexUsers_def diffOldUser_def diffNewUser_def permissionsNotIn_def newUserDiff_def
  Numbers_def NumReplicas_def WithStack_def orderedUserCalls_def zeroTopicDetail_def deref_def On_def


text \<open>
  C3 (as amended). When \<open>ListTopics\<close> answers: an error that the cluster reports for the
  topic named from \<open>new\<close> ends the update with that error, or with "cannot update Name and
  ClusterArn properties" when the topic is unknown and the name changed; otherwise a
  cluster-reported partition count other than \<open>new.Partitions\<close> ends it with "Cannot update
  Partitions", and a cluster-reported replica count other than \<open>new.ReplicationFactor\<close>
  with "Cannot update ReplicationFactor". In each case \<open>ListTopics\<close> is the only call made:
  no key lookup, no config alteration, no user or ACL call, no delay.
\<close>

theorem cmdUpdate_Run_rejects:
  assumes "listTopics be tr (canonicalTopicName (Name new) (shortStackID stackID)) = Inr topics"
  shows "(\<forall>ct e. map_of topics (canonicalTopicName (Name new) (shortStackID stackID)) = Some ct
              \<and> TopicErr ct = Some e \<longrightarrow>
            cmdUpdate_Run be old new stackID tr =
              (Some (Error (if e = UnknownTopicOrPartition \<and> Name old \<noteq> Name new
                            then ErrorsNew ''cannot update Name and ClusterArn properties'' else e)),
               tr @ [ListTopicsCall (canonicalTopicName (Name new) (shortStackID stackID))]))
       \<and> (\<forall>ct. map_of topics (canonicalTopicName (Name new) (shortStackID stackID)) = Some ct
              \<and> TopicErr ct = None
              \<and> int (length (Numbers (TopicPartitions ct))) \<noteq> Partitions new \<longrightarrow>
            cmdUpdate_Run be old new stackID tr =
              (Some (Error (ErrorsNew ''Cannot update Partitions'')),
               tr @ [ListTopicsCall (canonicalTopicName (Name new) (shortStackID stackID))]))
       \<and> (\<forall>ct. map_of topics (canonicalTopicName (Name new) (shortStackID stackID)) = Some ct
              \<and> TopicErr ct = None
              \<and> int (length (Numbers (TopicPartitions ct))) = Partitions new
              \<and> NumReplicas (TopicPartitions ct) \<noteq> ReplicationFactor new \<longrightarrow>
            cmdUpdate_Run be old new stackID tr =
              (Some (Error (ErrorsNew ''Cannot update ReplicationFactor'')),
               tr @ [ListTopicsCall (canonicalTopicName (Name new) (shortStackID stackID))]))
       \<and> (map_of topics (canonicalTopicName (Name new) (shortStackID stackID)) = None
              \<and> Partitions new \<noteq> 0 \<longrightarrow>
            cmdUpdate_Run be old new stackID tr =
              (Some (Error (ErrorsNew ''Cannot update Partitions'')),
               tr @ [ListTopicsCall (canonicalTopicName (Name new) (shortStackID stackID))]))"
  using assms
  by (simp add: cmdUpdate_Run_def Let_def WithStack_def zeroTopicDetail_def Numbers_def)

theorem cmdUpdate_Run_rejects_witness:
  "listTopics (mockBackend ((testTopicInfo [] [])\<lparr>Partitions := 1, ReplicationFactor := 1\<rparr>) [\<lparr>Configs = []\<rparr>])
     [] (canonicalTopicName ''a'' (shortStackID ''test''))
   = Inr [(canonicalTopicName ''a'' (shortStackID ''test''),
           \<lparr>TopicPartitions = [(0, [0])], TopicErr = None\<rparr>)]
   \<and> cmdUpdate_Run (mockBackend ((testTopicInfo [] [])\<lparr>Partitions := 1, ReplicationFactor := 1\<rparr>) [\<lparr>Configs = []\<rparr>])
       ((testTopicInfo [] [])\<lparr>Partitions := 1, ReplicationFactor := 1\<rparr>)
       ((testTopicInfo [] [])\<lparr>Partitions := 2, ReplicationFactor := 1\<rparr>) ''test'' []
     = (Some (Error (ErrorsNew ''Cannot update Partitions'')),
        [ListTopicsCall (canonicalTopicName ''a'' (shortStackID ''test''))])
   \<and> cmdUpdate_Run (mockBackend ((testTopicInfo [] [])\<lparr>Partitions := 1, ReplicationFactor := 1\<rparr>) [\<lparr>Configs = []\<rparr>])
       ((testTopicInfo [] [])\<lparr>Partitions := 1, ReplicationFactor := 1\<rparr>)
       ((testTopicInfo [] [])\<lparr>Partitions := 1, ReplicationFactor := 3\<rparr>) ''test'' []
     = (Some (Error (ErrorsNew ''Cannot update ReplicationFactor'')),
        [ListTopicsCall (canonicalTopicName ''a'' (shortStackID ''test''))])
   \<and> cmdUpdate_Run
       ((mockBackend (testTopicInfo [] []) [])
          \<lparr>listTopics := \<lambda>tr topicName.
             Inr [(topicName, \<lparr>TopicPartitions = [], TopicErr = Some UnknownTopicOrPartition\<rparr>)]\<rparr>)
       ((testTopicInfo [] [])\<lparr>Name := ''b''\<rparr>) (testTopicInfo [] []) ''test'' []
     = (Some (Error (ErrorsNew ''cannot update Name and ClusterArn properties'')),
        [ListTopicsCall (canonicalTopicName ''a'' (shortStackID ''test''))])
   \<and> cmdUpdate_Run ((mockBackend (testTopicInfo [] []) [])\<lparr>listTopics := \<lambda>tr topicName. Inr []\<rparr>)
       (testTopicInfo [] []) ((testTopicInfo [] [])\<lparr>Partitions := 2\<rparr>) ''test'' []
     = (Some (Error (ErrorsNew ''Cannot update Partitions'')),
        [ListTopicsCall (canonicalTopicName ''a'' (shortStackID ''test''))])"
proof -
  let ?cluster = "(testTopicInfo [] [])\<lparr>Partitions := 1, ReplicationFactor := 1\<rparr>"
  let ?be = "mockBackend ?cluster [\<lparr>Configs = []\<rparr>]"
  let ?p2 = "(testTopicInfo [] [])\<lparr>Partitions := 2, ReplicationFactor := 1\<rparr>"
  let ?r3 = "(testTopicInfo [] [])\<lparr>Partitions := 1, ReplicationFactor := 3\<rparr>"
  let ?T = "canonicalTopicName ''a'' (shortStackID ''test'')"
  let ?ct = "\<lparr>TopicPartitions = [(0, [0])], TopicErr = None\<rparr>"
  have l: "listTopics ?be [] ?T = Inr [(?T, ?ct)]"
    by (simp add: mockBackend_def mockListTopicsOutput_def testTopicInfo_def)
  have l2: "listTopics ?be [] (canonicalTopicName (Name ?p2) (shortStackID ''test'')) = Inr [(?T, ?ct)]"
    using l by (simp add: testTopicInfo_def)
  have l3: "listTopics ?be [] (canonicalTopicName (Name ?r3) (shortStackID ''test'')) = Inr [(?T, ?ct)]"
    using l by (simp add: testTopicInfo_def)
  have a: "cmdUpdate_Run ?be ?cluster ?p2 ''test'' []
      = (Some (Error (ErrorsNew ''Cannot update Partitions'')), [ListTopicsCall ?T])"
    using cmdUpdate_Run_rejects [OF l2, of ?cluster]
    by (simp add: testTopicInfo_def Numbers_def)
  have b: "cmdUpdate_Run ?be ?cluster ?r3 ''test'' []
      = (Some (Error (ErrorsNew ''Cannot update ReplicationFactor'')), [ListTopicsCall ?T])"
    using cmdUpdate_Run_rejects [OF l3, of ?cluster]
    by (simp add: testTopicInfo_def Numbers_def NumReplicas_def)
  let ?beU = "(mockBackend (testTopicInfo [] []) [])
          \<lparr>listTopics := \<lambda>tr topicName.
             Inr [(topicName, \<lparr>TopicPartitions = [], TopicErr = Some UnknownTopicOrPartition\<rparr>)]\<rparr>"
  let ?renamed = "(testTopicInfo [] [])\<lparr>Name := ''b''\<rparr>"
  have lU: "listTopics ?beU [] (canonicalTopicName (Name (testTopicInfo [] [])) (shortStackID ''test''))
      = Inr [(?T, \<lparr>TopicPartitions = [], TopicErr = Some UnknownTopicOrPartition\<rparr>)]"
    by (simp add: testTopicInfo_def)
  have c: "cmdUpdate_Run ?beU ?renamed (testTopicInfo [] []) ''test'' []
      = (Some (Error (ErrorsNew ''cannot update Name and ClusterArn properties'')), [ListTopicsCall ?T])"
    using cmdUpdate_Run_rejects [OF lU, of ?renamed]
    by (simp add: testTopicInfo_def)
  let ?beN = "(mockBackend (testTopicInfo [] []) [])\<lparr>listTopics := \<lambda>tr topicName. Inr []\<rparr>"
  let ?two = "(testTopicInfo [] [])\<lparr>Partitions := 2\<rparr>"
  have lN: "listTopics ?beN [] (canonicalTopicName (Name ?two) (shortStackID ''test'')) = Inr []"
    by simp
  have d: "cmdUpdate_Run ?beN (testTopicInfo [] []) ?two ''test'' []
      = (Some (Error (ErrorsNew ''Cannot update Partitions'')), [ListTopicsCall ?T])"
    using cmdUpdate_Run_rejects [OF lN, of "testTopicInfo [] []"]
    by (simp add: testTopicInfo_def)
  from l a b c d show ?thesis by (intro conjI)
qed

text \<open>
  C3 as stated fails: a change of \<open>Partitions\<close> from 1 to 2 is accepted when the cluster
  already reports 2 partitions, and a change of \<open>ClusterArn\<close> is accepted as well; in both
  runs the update succeeds.
\<close>

theorem cmdUpdate_Run_accepts_changed_fields:
  "cmdUpdate_Run (mockBackend ((testTopicInfo [] [])\<lparr>Partitions := 2, ReplicationFactor := 1\<rparr>) [\<lparr>Configs = []\<rparr>])
       ((testTopicInfo [] [])\<lparr>Partitions := 1, ReplicationFactor := 1\<rparr>)
       ((testTopicInfo [] [])\<lparr>Partitions := 2, ReplicationFactor := 1\<rparr>) ''test'' []
     = (None, [ListTopicsCall (canonicalTopicName ''a'' (shortStackID ''test'')),
               DescribeTopicConfigsCall (canonicalTopicName ''a'' (shortStackID ''test''))])
   \<and> cmdUpdate_Run (mockBackend ((testTopicInfo [] [])\<lparr>ClusterArn := ''arn:cluster-2''\<rparr>) [\<lparr>Configs = []\<rparr>])
       ((testTopicInfo [] [])\<lparr>ClusterArn := ''arn:cluster-1''\<rparr>)
       ((testTopicInfo [] [])\<lparr>ClusterArn := ''arn:cluster-2''\<rparr>) ''test'' []
     = (None, [ListTopicsCall (canonicalTopicName ''a'' (shortStackID ''test'')),
               DescribeTopicConfigsCall (canonicalTopicName ''a'' (shortStackID ''test''))])"
  by (simp add: mock_eval upt_conv_Cons)

subsection \<open>Key resolver\<close>



subsection \<open>Delete command\<close>







subsection \<open>Create handler and property parsing\<close>

lemma NewTopicInfo_not_nil_nil: "NewTopicInfo lib props \<noteq> (None, None)"
  by (simp add: NewTopicInfo_def split: sum.splits prod.splits)

lemma cmdCreate_Run_result:
  "cmdCreate_Run be info stackID tr = (Inr id', tr') \<Longrightarrow>
   id' = \<lparr>PhysicalResourceID = canonicalTopicName (Name info) (shortStackID stackID),
          UsernameSuffix = shortStackID stackID\<rparr>"
  by (auto simp: cmdCreate_Run_def Let_def split: sum.splits option.splits prod.splits if_splits)

text \<open>
  C9. The response of \<open>create\<close> carries, on every failure path, the identifier that
  \<open>uuid.NewString\<close> generated for this invocation; on success it carries the canonical
  topic name of the parsed \<open>TopicInfo\<close> and the output properties hold \<open>UsernameSuffix\<close>, the
  short stack hash. The handler never dereferences a nil \<open>TopicInfo\<close>.
\<close>

theorem create_response:
  "case create lib be rid event tr of
     ((physicalResourceID, props, err), tr') \<Rightarrow>
       (err \<noteq> None \<longrightarrow> physicalResourceID = rid)
     \<and> (err = None \<longrightarrow>
          (\<exists>ti. NewTopicInfo lib (ResourceProperties event) = (Some ti, None)
             \<and> physicalResourceID = canonicalTopicName (Name ti) (shortStackID (StackID event))
             \<and> props = Some [(''UsernameSuffix'', shortStackID (StackID event))]))
     \<and> err \<noteq> Some (Panic NilPointerDereference)"
proof -
  obtain ti' nerr where n: "NewTopicInfo lib (ResourceProperties event) = (ti', nerr)"
    by (cases "NewTopicInfo lib (ResourceProperties event)")
  show ?thesis
  proof (cases nerr)
    case (Some e)
    with n show ?thesis by (cases ti') (simp_all add: create_def)
  next
    case None
    with n NewTopicInfo_not_nil_nil [of lib "ResourceProperties event"]
    obtain ti where ti: "ti' = Some ti" by (cases ti') auto
    show ?thesis
    proof (cases "newKafkaClient be tr (ClusterArn ti)")
      case (Some e)
      with n None ti show ?thesis by (simp add: create_def)
    next
      case kc: None
      obtain cr tr' where c: "cmdCreate_Run be ti (StackID event) (tr @ [NewKafkaClientCall (ClusterArn ti)]) = (cr, tr')"
        by (cases "cmdCreate_Run be ti (StackID event) (tr @ [NewKafkaClientCall (ClusterArn ti)])")
      show ?thesis
      proof (cases cr)
        case (Inl e)
        with n None ti kc c show ?thesis by (simp add: create_def)
      next
        case (Inr id')
        with c cmdCreate_Run_result [of be ti "StackID event" _ id' tr']
        have "id' = \<lparr>PhysicalResourceID = canonicalTopicName (Name ti) (shortStackID (StackID event)),
                      UsernameSuffix = shortStackID (StackID event)\<rparr>"
          by simp
        with n None ti kc c Inr show ?thesis
          by (simp add: create_def PropUsernameSuffix_def)
      qed
    qed
  qed
qed

theorem create_response_witness:
  "create (mockLibrary [] (testTopicInfo [] [])) (mockBackend (testTopicInfo [] []) []) ''uuid''
     \<lparr>StackID = ''test'', ResourceProperties = []\<rparr> []
   = ((canonicalTopicName ''a'' (shortStackID ''test''),
       Some [(''UsernameSuffix'', shortStackID ''test'')], None),
      [NewKafkaClientCall [],
       CreateTopicCall 0 0 [] (canonicalTopicName ''a'' (shortStackID ''test''))])
   \<and> create (mockLibrary [''(root): Name is required''] (testTopicInfo [] []))
       (mockBackend (testTopicInfo [] []) []) ''uuid''
       \<lparr>StackID = ''test'', ResourceProperties = []\<rparr> []
     = ((''uuid'', None, Some (Error (ErrorsNew ''(root): Name is required''))), [])"
  using create_response [where lib = "mockLibrary [] (testTopicInfo [] [])"
      and be = "mockBackend (testTopicInfo [] []) []" and rid = "''uuid''"
      and event = "\<lparr>StackID = ''test'', ResourceProperties = []\<rparr>" and tr = "[]"]
    create_response [where lib = "mockLibrary [''(root): Name is required''] (testTopicInfo [] [])"
      and be = "mockBackend (testTopicInfo [] []) []" and rid = "''uuid''"
      and event = "\<lparr>StackID = ''test'', ResourceProperties = []\<rparr>" and tr = "[]"]
  by (simp add: create_def NewTopicInfo_def mockLibrary_def mockBackend_def cmdCreate_Run_def
      Resolve_def testTopicInfo_def Let_def)




subsection \<open>Naming\<close>

lemma sha256_output_length: "length (sha256_output st) = 32"
  by (induction st rule: sha256_output.induct) (simp add: bytesOfWord_def)

lemma Sum256_length: "length (Sum256 m) = 32"
  by (simp add: Sum256_def Let_def sha256_output_length)

lemma bits_length: "length (concat (map bitsOfByte src)) = 8 * length src"
  by (induction src) (simp_all add: bitsOfByte_def)

lemma base32_EncodeToString_length:
  "length (base32_EncodeToString src) = (8 * length src + 4) div 5"
  by (simp add: base32_EncodeToString_def Let_def bits_length)

lemma shortStackID_length: "length (shortStackID stackID) = 8"
  by (simp add: shortStackID_def Let_def base32_EncodeToString_length Sum256_length)

text \<open>
  C6. The canonical topic name is the raw name, a hyphen and the short hash of the stack
  identifier; the canonical username is \<open>AmazonMSK_\<close>, the raw username, an underscore and
  the short hash; the short hash is the first 8 characters of the unpadded base32
  encoding of the SHA-256 digest of the stack identifier, and it always has 8 characters.
  The names are functions of their inputs: equal inputs give equal names.
\<close>

theorem canonical_names:
  "canonicalTopicName rawName (shortStackID stackID) =
     rawName @ ''-'' @ take 8 (base32_EncodeToString (Sum256 (bytesOfString stackID)))
   \<and> canonicalUsername rawUsername (shortStackID stackID) =
     ''AmazonMSK_'' @ rawUsername @ ''_'' @ take 8 (base32_EncodeToString (Sum256 (bytesOfString stackID)))
   \<and> length (shortStackID stackID) = 8
   \<and> length (base32_EncodeToString (Sum256 (bytesOfString stackID))) = 52
   \<and> (stackID = stackID' \<and> rawName = rawName' \<and> rawUsername = rawUsername' \<longrightarrow>
        canonicalTopicName rawName (shortStackID stackID) = canonicalTopicName rawName' (shortStackID stackID')
        \<and> canonicalUsername rawUsername (shortStackID stackID)
            = canonicalUsername rawUsername' (shortStackID stackID'))"
  by (simp add: canonicalTopicName_def canonicalUsername_def shortStackID_length
      base32_EncodeToString_length Sum256_length)
     (simp add: shortStackID_def Let_def)

lemma shortStackID_test: "shortStackID ''test'' = ''T6DNBAMI''"
  by code_simp

theorem canonical_names_witness:
  "canonicalTopicName ''awesome-topic'' (shortStackID ''test'') = ''awesome-topic-T6DNBAMI''
   \<and> canonicalUsername ''charlie'' (shortStackID ''test'') = ''AmazonMSK_charlie_T6DNBAMI''
   \<and> ''test'' = ''test'' \<and> ''awesome-topic'' = ''awesome-topic'' \<and> ''charlie'' = ''charlie''
   \<and> canonicalTopicName ''awesome-topic'' (shortStackID ''test'')
       = canonicalTopicName ''awesome-topic'' (shortStackID ''test'')"
  using canonical_names [of "''awesome-topic''" "''test''" "''charlie''" "''test''" "''awesome-topic''" "''charlie''"]
  by (simp add: shortStackID_test canonicalTopicName_def canonicalUsername_def)

end
